theory Spec2Isabelle
  imports Complex_Main
begin

section \<open>Floating-point values\<close>

text \<open>
  The geometries compute on NumPy float arrays. A float is modelled as an exact real
  number or one of the three special values of IEEE 754: rounding and overflow are
  idealised away (every real is representable), the special values and the rules by
  which the operations produce and propagate them are kept. Zero carries no sign:
  dividing a non-zero number by zero gives the infinity that has the sign of the
  numerator.
\<close>

datatype fl = Fin real | PInf | NInf | NaN

instantiation fl :: "{plus,minus,uminus,times,inverse,abs}"
begin

fun uminus_fl :: "fl \<Rightarrow> fl" where
  "uminus_fl (Fin x) = Fin (- x)"
| "uminus_fl PInf = NInf"
| "uminus_fl NInf = PInf"
| "uminus_fl NaN = NaN"

fun plus_fl :: "fl \<Rightarrow> fl \<Rightarrow> fl" where
  "plus_fl NaN _ = NaN"
| "plus_fl _ NaN = NaN"
| "plus_fl PInf NInf = NaN"
| "plus_fl NInf PInf = NaN"
| "plus_fl PInf _ = PInf"
| "plus_fl _ PInf = PInf"
| "plus_fl NInf _ = NInf"
| "plus_fl _ NInf = NInf"
| "plus_fl (Fin x) (Fin y) = Fin (x + y)"

definition minus_fl :: "fl \<Rightarrow> fl \<Rightarrow> fl" where
  "minus_fl a b = a + (- b)"

fun times_fl :: "fl \<Rightarrow> fl \<Rightarrow> fl" where
  "times_fl NaN _ = NaN"
| "times_fl _ NaN = NaN"
| "times_fl (Fin x) (Fin y) = Fin (x * y)"
| "times_fl (Fin x) PInf = (if x = 0 then NaN else if 0 < x then PInf else NInf)"
| "times_fl (Fin x) NInf = (if x = 0 then NaN else if 0 < x then NInf else PInf)"
| "times_fl PInf (Fin y) = (if y = 0 then NaN else if 0 < y then PInf else NInf)"
| "times_fl NInf (Fin y) = (if y = 0 then NaN else if 0 < y then NInf else PInf)"
| "times_fl PInf PInf = PInf"
| "times_fl PInf NInf = NInf"
| "times_fl NInf PInf = NInf"
| "times_fl NInf NInf = PInf"

fun divide_fl :: "fl \<Rightarrow> fl \<Rightarrow> fl" where
  "divide_fl NaN _ = NaN"
| "divide_fl _ NaN = NaN"
| "divide_fl (Fin x) (Fin y) =
     (if y = 0 then (if x = 0 then NaN else if 0 < x then PInf else NInf)
      else Fin (x / y))"
| "divide_fl (Fin x) PInf = Fin 0"
| "divide_fl (Fin x) NInf = Fin 0"
| "divide_fl PInf (Fin y) = (if 0 \<le> y then PInf else NInf)"
| "divide_fl NInf (Fin y) = (if 0 \<le> y then NInf else PInf)"
| "divide_fl _ _ = NaN"

definition inverse_fl :: "fl \<Rightarrow> fl" where
  "inverse_fl a = divide (Fin 1) a"

fun abs_fl :: "fl \<Rightarrow> fl" where
  "abs_fl (Fin x) = Fin \<bar>x\<bar>"
| "abs_fl PInf = PInf"
| "abs_fl NInf = PInf"
| "abs_fl NaN = NaN"

instance ..

end

text \<open>Comparisons: every comparison with NaN is false, except \<open>!=\<close>, which is true.\<close>

fun fl_lt :: "fl \<Rightarrow> fl \<Rightarrow> bool" where
  "fl_lt NaN _ = False"
| "fl_lt _ NaN = False"
| "fl_lt (Fin x) (Fin y) = (x < y)"
| "fl_lt _ NInf = False"
| "fl_lt PInf _ = False"
| "fl_lt NInf _ = True"
| "fl_lt _ PInf = True"

definition fl_gt :: "fl \<Rightarrow> fl \<Rightarrow> bool" where
  "fl_gt a b = fl_lt b a"

definition fl_eq :: "fl \<Rightarrow> fl \<Rightarrow> bool" where
  "fl_eq a b = (a \<noteq> NaN \<and> b \<noteq> NaN \<and> a = b)"

definition fl_ne :: "fl \<Rightarrow> fl \<Rightarrow> bool" where
  "fl_ne a b = (\<not> fl_eq a b)"

definition fl_le :: "fl \<Rightarrow> fl \<Rightarrow> bool" where
  "fl_le a b = (fl_lt a b \<or> fl_eq a b)"

text \<open>
  \<open>x ** n\<close> for a natural exponent (\<open>pow(x, 0)\<close> is 1 for every \<open>x\<close>, NaN included),
  \<open>np.sqrt\<close>, \<open>np.cos\<close>, \<open>np.sin\<close>, \<open>np.arccos\<close>.
\<close>

fun fl_pow :: "fl \<Rightarrow> nat \<Rightarrow> fl" where
  "fl_pow x 0 = Fin 1"
| "fl_pow (Fin x) n = Fin (x ^ n)"
| "fl_pow PInf n = PInf"
| "fl_pow NInf n = (if even n then PInf else NInf)"
| "fl_pow NaN n = NaN"

fun fl_sqrt :: "fl \<Rightarrow> fl" where
  "fl_sqrt (Fin x) = (if 0 \<le> x then Fin (sqrt x) else NaN)"
| "fl_sqrt PInf = PInf"
| "fl_sqrt NInf = NaN"
| "fl_sqrt NaN = NaN"

fun fl_cos :: "fl \<Rightarrow> fl" where
  "fl_cos (Fin x) = Fin (cos x)"
| "fl_cos _ = NaN"

fun fl_sin :: "fl \<Rightarrow> fl" where
  "fl_sin (Fin x) = Fin (sin x)"
| "fl_sin _ = NaN"

fun fl_arccos :: "fl \<Rightarrow> fl" where
  "fl_arccos (Fin x) = (if \<bar>x\<bar> \<le> 1 then Fin (arccos x) else NaN)"
| "fl_arccos _ = NaN"

text \<open>\<open>np.isfinite\<close>: neither an infinity nor NaN.\<close>

definition isfinite :: "fl \<Rightarrow> bool" where
  "isfinite v = (case v of Fin _ \<Rightarrow> True | _ \<Rightarrow> False)"

section \<open>Arrays\<close>

text \<open>
  A one-dimensional NumPy array is a list. The arithmetic of two arrays of one batch is
  elementwise (\<open>vadd\<close>, \<open>vsub\<close>, \<open>vmul\<close>, \<open>vdiv\<close>); an operation with a scalar is
  written with \<open>map\<close>. The arrays of one call have the same length: they are the
  columns of one ray batch.
\<close>

definition vadd :: "fl list \<Rightarrow> fl list \<Rightarrow> fl list" where
  "vadd xs ys = map2 (+) xs ys"

definition vsub :: "fl list \<Rightarrow> fl list \<Rightarrow> fl list" where
  "vsub xs ys = map2 (-) xs ys"

definition vmul :: "fl list \<Rightarrow> fl list \<Rightarrow> fl list" where
  "vmul xs ys = map2 (*) xs ys"

definition vdiv :: "fl list \<Rightarrow> fl list \<Rightarrow> fl list" where
  "vdiv xs ys = map2 (/) xs ys"

definition vpow :: "fl list \<Rightarrow> nat \<Rightarrow> fl list" where
  "vpow xs n = map (\<lambda>v. fl_pow v n) xs"

definition vneg :: "fl list \<Rightarrow> fl list" where
  "vneg xs = map uminus xs"

definition vsqrt :: "fl list \<Rightarrow> fl list" where
  "vsqrt xs = map fl_sqrt xs"

definition vabs :: "fl list \<Rightarrow> fl list" where
  "vabs xs = map abs xs"

text \<open>\<open>t[m] = v\<close> for a boolean mask \<open>m\<close> and a scalar \<open>v\<close>.\<close>

definition mask_fill :: "'a list \<Rightarrow> bool list \<Rightarrow> 'a \<Rightarrow> 'a list" where
  "mask_fill t m v = map2 (\<lambda>e b. if b then v else e) t m"

text \<open>\<open>c[m]\<close>: the elements of \<open>c\<close> where the mask holds, in order.\<close>

definition mask_get :: "'a list \<Rightarrow> bool list \<Rightarrow> 'a list" where
  "mask_get c m = map fst (filter snd (zip c m))"

text \<open>\<open>t[m] = vs\<close>: the masked positions of \<open>t\<close> take the elements of \<open>vs\<close> in order.\<close>

fun mask_put :: "'a list \<Rightarrow> bool list \<Rightarrow> 'a list \<Rightarrow> 'a list" where
  "mask_put (e # t) (True # m) (v # vs) = v # mask_put t m vs"
| "mask_put (e # t) (False # m) vs = e # mask_put t m vs"
| "mask_put t _ _ = t"

text \<open>\<open>np.where(cond, a, b)\<close>.\<close>

definition np_where :: "bool list \<Rightarrow> 'a list \<Rightarrow> 'a list \<Rightarrow> 'a list" where
  "np_where cond a b = map2 (\<lambda>c (u, v). if c then u else v) cond (zip a b)"

section \<open>Rays and the standard geometry\<close>

text \<open>
  A batch of real rays is a list of rays; \<open>rays.x\<close> is \<open>map ray_x rays\<close>, and likewise
  for the other columns, so the columns of a batch have the same length.
\<close>

record ray =
  ray_x :: fl
  ray_y :: fl
  ray_z :: fl
  ray_L :: fl
  ray_M :: fl
  ray_N :: fl

text \<open>\<open>StandardGeometry\<close>: \<open>self.radius\<close> and \<open>self.k\<close> (the constructor's \<open>conic\<close>).\<close>

record StandardGeometry =
  radius :: fl
  conic :: fl

definition StandardGeometry_sag ::
  "'a StandardGeometry_scheme \<Rightarrow> fl list \<Rightarrow> fl list \<Rightarrow> fl list" where
  "StandardGeometry_sag g x y =
     (let r2 = vadd (vpow x 2) (vpow y 2)
      in vdiv r2
           (map (\<lambda>v. radius g * v)
              (map (\<lambda>v. Fin 1 + v)
                 (vsqrt (map (\<lambda>v. Fin 1 - v)
                    (map (\<lambda>v. v / fl_pow (radius g) 2)
                       (map (\<lambda>v. (Fin 1 + conic g) * v) r2)))))))"

definition StandardGeometry_distance ::
  "'a StandardGeometry_scheme \<Rightarrow> ray list \<Rightarrow> fl list" where
  "StandardGeometry_distance g rays =
     (let x = map ray_x rays; y = map ray_y rays; z = map ray_z rays;
          L = map ray_L rays; M = map ray_M rays; N = map ray_N rays;
          a = vadd (vadd (vadd (map (\<lambda>v. conic g * v) (vpow N 2)) (vpow L 2)) (vpow M 2))
                (vpow N 2);
          b = vadd
                (vsub
                   (vadd
                      (vadd (vmul (map (\<lambda>v. (Fin 2 * conic g) * v) N) z)
                         (vmul (map (\<lambda>v. Fin 2 * v) L) x))
                      (vmul (map (\<lambda>v. Fin 2 * v) M) y))
                   (map (\<lambda>v. v * radius g) (map (\<lambda>v. Fin 2 * v) N)))
                (vmul (map (\<lambda>v. Fin 2 * v) N) z);
          c = vadd
                (vadd
                   (vadd
                      (vsub (map (\<lambda>v. conic g * v) (vpow z 2))
                         (map (\<lambda>v. (Fin 2 * radius g) * v) z))
                      (vpow x 2))
                   (vpow y 2))
                (vpow z 2);
          d = vsub (vpow b 2) (vmul (map (\<lambda>v. Fin 4 * v) a) c);
          t1 = vdiv (vadd (vneg b) (vsqrt d)) (map (\<lambda>v. Fin 2 * v) a);
          t2 = vdiv (vsub (vneg b) (vsqrt d)) (map (\<lambda>v. Fin 2 * v) a);
          t1 = mask_fill t1 (map (\<lambda>v. fl_lt v (Fin 0)) t1) PInf;
          t2 = mask_fill t2 (map (\<lambda>v. fl_lt v (Fin 0)) t2) PInf;
          z1 = vadd z (vmul t1 N);
          z2 = vadd z (vmul t2 N);
          t = np_where (map2 fl_le (vabs z1) (vabs z2)) t1 t2;
          a0 = map (\<lambda>v. fl_eq v (Fin 0)) a
      in mask_put t a0 (vdiv (vneg (mask_get c a0)) (mask_get b a0)))"

definition StandardGeometry_surface_normal ::
  "'a StandardGeometry_scheme \<Rightarrow> ray list \<Rightarrow> fl list \<times> fl list \<times> fl list" where
  "StandardGeometry_surface_normal g rays =
     (let x = map ray_x rays; y = map ray_y rays;
          r2 = vadd (vpow x 2) (vpow y 2);
          denom = map (\<lambda>v. (- radius g) * v)
                    (vsqrt (map (\<lambda>v. Fin 1 - v)
                       (map (\<lambda>v. v / fl_pow (radius g) 2)
                          (map (\<lambda>v. (Fin 1 + conic g) * v) r2))));
          dfdx = vdiv x denom;
          dfdy = vdiv y denom;
          dfdz = Fin 1;
          mag = vsqrt (map (\<lambda>v. v + fl_pow dfdz 2) (vadd (vpow dfdx 2) (vpow dfdy 2)));
          nx = vdiv dfdx mag;
          ny = vdiv dfdy mag;
          nz = map (\<lambda>v. dfdz / v) mag
      in (nx, ny, nz))"

section \<open>Paraxial rays\<close>

datatype error = ValueError

text \<open>
  \<open>ParaxialRays\<close>: the attributes \<open>y\<close>, \<open>z\<close>, \<open>u\<close>, \<open>x\<close>, \<open>i\<close>, \<open>w\<close>, in the
  order in which the constructor sets them.
\<close>

record ParaxialRays =
  pr_y :: "fl list"
  pr_z :: "fl list"
  pr_u :: "fl list"
  pr_x :: "fl list"
  pr_i :: "fl list"
  pr_w :: "fl list"

definition zeros_like :: "fl list \<Rightarrow> fl list" where
  "zeros_like a = map (\<lambda>_. Fin 0) a"

definition ones_like :: "fl list \<Rightarrow> fl list" where
  "ones_like a = map (\<lambda>_. Fin 1) a"

text \<open>
  The constructor. \<open>_process_input\<close> belongs to the base class \<open>BaseRays\<close>, which is
  not among the sources: it is the parameter \<open>process_input\<close>, which turns an input
  into an array or raises.
\<close>

definition ParaxialRays_init ::
  "('a \<Rightarrow> 'e + fl list) \<Rightarrow> 'a \<Rightarrow> 'a \<Rightarrow> 'a \<Rightarrow> 'a \<Rightarrow> 'e + ParaxialRays" where
  "ParaxialRays_init process_input y u z wavelength =
     (case process_input y of Inl e \<Rightarrow> Inl e | Inr y' \<Rightarrow>
      (case process_input z of Inl e \<Rightarrow> Inl e | Inr z' \<Rightarrow>
       (case process_input u of Inl e \<Rightarrow> Inl e | Inr u' \<Rightarrow>
        (let x' = zeros_like y'; i' = ones_like y'
         in (case process_input wavelength of Inl e \<Rightarrow> Inl e | Inr w' \<Rightarrow>
               Inr \<lparr>pr_y = y', pr_z = z', pr_u = u', pr_x = x', pr_i = i', pr_w = w'\<rparr>)))))"

text \<open>
  \<open>a += b\<close> on arrays: \<open>b\<close> is broadcast to the shape of \<open>a\<close>, which the in-place
  addition cannot change; NumPy raises a \<open>ValueError\<close> when \<open>b\<close> has neither the
  length of \<open>a\<close> nor length one.
\<close>

definition iadd :: "fl list \<Rightarrow> fl list \<Rightarrow> error + fl list" where
  "iadd a b =
     (if length b = length a then Inr (map2 (+) a b)
      else if length b = 1 then Inr (map (\<lambda>v. v + hd b) a)
      else Inl ValueError)"

text \<open>
  \<open>propagate\<close> mutates the rays: the model returns the rays as the call leaves them,
  with the exception when the second statement raises (the first has then been
  executed).
\<close>

definition propagate :: "fl \<Rightarrow> ParaxialRays \<Rightarrow> error option \<times> ParaxialRays" where
  "propagate t r =
     (let r1 = r\<lparr>pr_z := map (\<lambda>v. v + t) (pr_z r)\<rparr>
      in (case iadd (pr_y r1) (map (\<lambda>v. t * v) (pr_u r1)) of
            Inl e \<Rightarrow> (Some e, r1)
          | Inr y' \<Rightarrow> (None, r1\<lparr>pr_y := y'\<rparr>)))"

text \<open>Every ray lies in the y-z plane and is valid: \<open>x\<close> is zero and \<open>i\<close> is one, ray by ray.\<close>

definition on_axis_valid :: "ParaxialRays \<Rightarrow> bool" where
  "on_axis_valid r =
     (pr_x r = replicate (length (pr_y r)) (Fin 0) \<and>
      pr_i r = replicate (length (pr_y r)) (Fin 1))"

section \<open>The even asphere\<close>

text \<open>
  \<open>EvenAsphere\<close> and \<open>ChebyshevPolynomialGeometry\<close> extend \<open>NewtonRaphsonGeometry\<close>,
  which is not among the sources and passes \<open>radius\<close> and \<open>conic\<close> on to
  \<open>StandardGeometry\<close>; its \<open>tol\<close> and \<open>max_iter\<close> are read by none of the methods
  below. \<open>asph_c\<close> is \<open>self.c\<close>, the list of aspheric coefficients.
\<close>

record EvenAsphere = StandardGeometry +
  asph_c :: "fl list"

definition EvenAsphere_sag :: "'a EvenAsphere_scheme \<Rightarrow> fl list \<Rightarrow> fl list \<Rightarrow> fl list" where
  "EvenAsphere_sag g x y =
     (let r2 = vadd (vpow x 2) (vpow y 2);
          z = vdiv r2
                (map (\<lambda>v. radius g * v)
                   (map (\<lambda>v. Fin 1 + v)
                      (vsqrt (map (\<lambda>v. Fin 1 - v)
                         (map (\<lambda>v. v / fl_pow (radius g) 2)
                            (map (\<lambda>v. (Fin 1 + conic g) * v) r2))))))
      in foldl (\<lambda>z (i, Ci). vadd z (map (\<lambda>v. Ci * v) (vpow r2 (i + 1)))) z
           (enumerate 0 (asph_c g)))"

definition EvenAsphere_surface_normal ::
  "'a EvenAsphere_scheme \<Rightarrow> fl list \<Rightarrow> fl list \<Rightarrow> fl list \<times> fl list \<times> fl list" where
  "EvenAsphere_surface_normal g x y =
     (let r2 = vadd (vpow x 2) (vpow y 2);
          denom = map (\<lambda>v. radius g * v)
                    (vsqrt (map (\<lambda>v. Fin 1 - v)
                       (map (\<lambda>v. v / fl_pow (radius g) 2)
                          (map (\<lambda>v. (Fin 1 + conic g) * v) r2))));
          dfdx = vdiv x denom;
          dfdy = vdiv y denom;
          (dfdx, dfdy) =
            foldl
              (\<lambda>(dfdx, dfdy) (i, Ci).
                 (vadd dfdx
                    (vmul (map (\<lambda>v. v * Ci) (map (\<lambda>v. Fin (real (2 * (i + 1))) * v) x))
                       (vpow r2 i)),
                  vadd dfdy
                    (vmul (map (\<lambda>v. v * Ci) (map (\<lambda>v. Fin (real (2 * (i + 1))) * v) y))
                       (vpow r2 i))))
              (dfdx, dfdy) (enumerate 0 (asph_c g));
          mag = vsqrt (map (\<lambda>v. v + Fin 1) (vadd (vpow dfdx 2) (vpow dfdy 2)));
          nx = vdiv dfdx mag;
          ny = vdiv dfdy mag;
          nz = map (\<lambda>v. Fin (- 1) / v) mag
      in (nx, ny, nz))"

section \<open>The Chebyshev polynomial geometry\<close>

text \<open>
  \<open>cheb_c\<close> is \<open>self.c\<close>, the two-dimensional coefficient array as a list of rows
  (\<open>np.atleast_2d\<close> has been applied: a flat list of coefficients is one row, the empty
  list one empty row).
\<close>

record ChebyshevPolynomialGeometry = StandardGeometry +
  cheb_c :: "fl list list"
  norm_x :: fl
  norm_y :: fl

definition atleast_2d :: "fl list + fl list list \<Rightarrow> fl list list" where
  "atleast_2d coefficients = (case coefficients of Inl row \<Rightarrow> [row] | Inr rows \<Rightarrow> rows)"

text \<open>\<open>_chebyshev\<close> and \<open>_chebyshev_derivative\<close>, for a degree \<open>n\<close> and an array \<open>x\<close>.\<close>

definition chebyshev :: "nat \<Rightarrow> fl list \<Rightarrow> fl list" where
  "chebyshev n x = map (\<lambda>v. fl_cos (Fin (real n) * fl_arccos v)) x"

definition chebyshev_derivative :: "nat \<Rightarrow> fl list \<Rightarrow> fl list" where
  "chebyshev_derivative n x =
     map (\<lambda>v. Fin (real n) * fl_sin (Fin (real n) * fl_arccos v) / fl_sqrt (Fin 1 - fl_pow v 2)) x"

text \<open>\<open>np.argwhere(c != 0)\<close>: the indices of the non-zero entries, row by row.\<close>

definition argwhere_nonzero :: "fl list list \<Rightarrow> (nat \<times> nat) list" where
  "argwhere_nonzero c =
     [(i, j). i \<leftarrow> [0 ..< length c], j \<leftarrow> [0 ..< length (c ! i)], fl_ne (c ! i ! j) (Fin 0)]"

text \<open>The entry of a coefficient array at a position; a position outside the array holds zero.\<close>

definition coefficient :: "fl list list \<Rightarrow> nat \<Rightarrow> nat \<Rightarrow> fl" where
  "coefficient c i j = (if i < length c \<and> j < length (c ! i) then c ! i ! j else Fin 0)"

definition ChebyshevPolynomialGeometry_sag ::
  "'a ChebyshevPolynomialGeometry_scheme \<Rightarrow> fl list \<Rightarrow> fl list \<Rightarrow> error + fl list" where
  "ChebyshevPolynomialGeometry_sag g x y =
     (let x_norm = map (\<lambda>v. v / norm_x g) x;
          y_norm = map (\<lambda>v. v / norm_y g) y
      in if list_ex (\<lambda>v. fl_gt \<bar>v\<bar> (Fin 1)) x_norm \<or> list_ex (\<lambda>v. fl_gt \<bar>v\<bar> (Fin 1)) y_norm
         then Inl ValueError
         else
           (let r2 = vadd (vpow x 2) (vpow y 2);
                z = vdiv r2
                      (map (\<lambda>v. radius g * v)
                         (map (\<lambda>v. Fin 1 + v)
                            (vsqrt (map (\<lambda>v. Fin 1 - v)
                               (map (\<lambda>v. v / fl_pow (radius g) 2)
                                  (map (\<lambda>v. (Fin 1 + conic g) * v) r2))))));
                non_zero_indices = argwhere_nonzero (cheb_c g)
            in Inr (foldl
                 (\<lambda>z (i, j).
                    vadd z
                      (vmul (map (\<lambda>v. cheb_c g ! i ! j * v) (chebyshev i x_norm))
                         (chebyshev j y_norm)))
                 z non_zero_indices)))"

definition ChebyshevPolynomialGeometry_surface_normal ::
  "'a ChebyshevPolynomialGeometry_scheme \<Rightarrow> fl list \<Rightarrow> fl list
     \<Rightarrow> error + fl list \<times> fl list \<times> fl list" where
  "ChebyshevPolynomialGeometry_surface_normal g x y =
     (let x_norm = map (\<lambda>v. v / norm_x g) x;
          y_norm = map (\<lambda>v. v / norm_y g) y
      in if list_ex (\<lambda>v. fl_gt \<bar>v\<bar> (Fin 1)) x_norm \<or> list_ex (\<lambda>v. fl_gt \<bar>v\<bar> (Fin 1)) y_norm
         then Inl ValueError
         else
           (let r2 = vadd (vpow x 2) (vpow y 2);
                denom = map (\<lambda>v. radius g * v)
                          (vsqrt (map (\<lambda>v. Fin 1 - v)
                             (map (\<lambda>v. v / fl_pow (radius g) 2)
                                (map (\<lambda>v. (Fin 1 + conic g) * v) r2))));
                dzdx = vdiv x denom;
                dzdy = vdiv y denom;
                non_zero_indices = argwhere_nonzero (cheb_c g);
                (dzdx, dzdy) =
                  foldl
                    (\<lambda>(dzdx, dzdy) (i, j).
                       (vadd dzdx
                          (vmul (map (\<lambda>v. v * cheb_c g ! i ! j) (chebyshev_derivative i x_norm))
                             (chebyshev j y_norm)),
                        vadd dzdy
                          (vmul (map (\<lambda>v. v * cheb_c g ! i ! j) (chebyshev_derivative j y_norm))
                             (chebyshev i x_norm))))
                    (dzdx, dzdy) non_zero_indices;
                norm = vsqrt (map (\<lambda>v. v + Fin 1) (vadd (vpow dzdx 2) (vpow dzdy 2)));
                nx = vdiv (vneg dzdx) norm;
                ny = vdiv (vneg dzdy) norm;
                nz = map (\<lambda>v. Fin 1 / v) norm
            in Inr (nx, ny, nz)))"

section \<open>The computations ray by ray\<close>

text \<open>
  The array code treats every ray alone. The definitions of this section read the same
  source lines for one ray; the lemmas of the next sections prove that the array code
  computes them elementwise, and the properties are then stated on the array code.
\<close>

definition quad_a :: "'a StandardGeometry_scheme \<Rightarrow> ray \<Rightarrow> fl" where
  "quad_a g r =
     conic g * fl_pow (ray_N r) 2 + fl_pow (ray_L r) 2 + fl_pow (ray_M r) 2 + fl_pow (ray_N r) 2"

definition quad_b :: "'a StandardGeometry_scheme \<Rightarrow> ray \<Rightarrow> fl" where
  "quad_b g r =
     Fin 2 * conic g * ray_N r * ray_z r + Fin 2 * ray_L r * ray_x r
       + Fin 2 * ray_M r * ray_y r - Fin 2 * ray_N r * radius g + Fin 2 * ray_N r * ray_z r"

definition quad_c :: "'a StandardGeometry_scheme \<Rightarrow> ray \<Rightarrow> fl" where
  "quad_c g r =
     conic g * fl_pow (ray_z r) 2 - Fin 2 * radius g * ray_z r
       + fl_pow (ray_x r) 2 + fl_pow (ray_y r) 2 + fl_pow (ray_z r) 2"

definition discriminant :: "'a StandardGeometry_scheme \<Rightarrow> ray \<Rightarrow> fl" where
  "discriminant g r = fl_pow (quad_b g r) 2 - Fin 4 * quad_a g r * quad_c g r"

definition root1 :: "'a StandardGeometry_scheme \<Rightarrow> ray \<Rightarrow> fl" where
  "root1 g r = (- quad_b g r + fl_sqrt (discriminant g r)) / (Fin 2 * quad_a g r)"

definition root2 :: "'a StandardGeometry_scheme \<Rightarrow> ray \<Rightarrow> fl" where
  "root2 g r = (- quad_b g r - fl_sqrt (discriminant g r)) / (Fin 2 * quad_a g r)"

text \<open>A root behind the ray is set to infinity.\<close>

definition forward :: "fl \<Rightarrow> fl" where
  "forward t = (if fl_lt t (Fin 0) then PInf else t)"

definition distance1 :: "'a StandardGeometry_scheme \<Rightarrow> ray \<Rightarrow> fl" where
  "distance1 g r =
     (let t1 = forward (root1 g r);
          t2 = forward (root2 g r);
          z1 = ray_z r + t1 * ray_N r;
          z2 = ray_z r + t2 * ray_N r;
          t = (if fl_le \<bar>z1\<bar> \<bar>z2\<bar> then t1 else t2)
      in if fl_eq (quad_a g r) (Fin 0) then (- quad_c g r) / quad_b g r else t)"

text \<open>The square root of the conic term, \<open>sqrt(1 - (1 + k) * r2 / R**2)\<close>, and the conic sag.\<close>

definition conic_root :: "'a StandardGeometry_scheme \<Rightarrow> fl \<Rightarrow> fl \<Rightarrow> fl" where
  "conic_root g x y =
     fl_sqrt (Fin 1 - (Fin 1 + conic g) * (fl_pow x 2 + fl_pow y 2) / fl_pow (radius g) 2)"

definition conic_sag1 :: "'a StandardGeometry_scheme \<Rightarrow> fl \<Rightarrow> fl \<Rightarrow> fl" where
  "conic_sag1 g x y =
     (fl_pow x 2 + fl_pow y 2) / (radius g * (Fin 1 + conic_root g x y))"

text \<open>The magnitude \<open>sqrt(dfdx**2 + dfdy**2 + 1)\<close> of the unscaled normal.\<close>

definition slope_mag :: "fl \<Rightarrow> fl \<Rightarrow> fl" where
  "slope_mag dx dy = fl_sqrt (fl_pow dx 2 + fl_pow dy 2 + Fin 1)"

definition standard_normal1 :: "'a StandardGeometry_scheme \<Rightarrow> fl \<Rightarrow> fl \<Rightarrow> fl \<times> fl \<times> fl" where
  "standard_normal1 g x y =
     (let denom = (- radius g) * conic_root g x y;
          dfdx = x / denom;
          dfdy = y / denom;
          mag = slope_mag dfdx dfdy
      in (dfdx / mag, dfdy / mag, Fin 1 / mag))"

definition asph_sag1 :: "'a EvenAsphere_scheme \<Rightarrow> fl \<Rightarrow> fl \<Rightarrow> fl" where
  "asph_sag1 g x y =
     foldl (\<lambda>z (i, Ci). z + Ci * fl_pow (fl_pow x 2 + fl_pow y 2) (i + 1))
       (conic_sag1 g x y) (enumerate 0 (asph_c g))"

definition asph_slopes1 :: "'a EvenAsphere_scheme \<Rightarrow> fl \<Rightarrow> fl \<Rightarrow> fl \<times> fl" where
  "asph_slopes1 g x y =
     (let denom = radius g * conic_root g x y
      in foldl
           (\<lambda>(dfdx, dfdy) (i, Ci).
              (dfdx + Fin (real (2 * (i + 1))) * x * Ci * fl_pow (fl_pow x 2 + fl_pow y 2) i,
               dfdy + Fin (real (2 * (i + 1))) * y * Ci * fl_pow (fl_pow x 2 + fl_pow y 2) i))
           (x / denom, y / denom) (enumerate 0 (asph_c g)))"

definition asph_normal1 :: "'a EvenAsphere_scheme \<Rightarrow> fl \<Rightarrow> fl \<Rightarrow> fl \<times> fl \<times> fl" where
  "asph_normal1 g x y =
     (case asph_slopes1 g x y of
        (dfdx, dfdy) \<Rightarrow>
          (let mag = slope_mag dfdx dfdy in (dfdx / mag, dfdy / mag, Fin (- 1) / mag)))"

definition chebyshev1 :: "nat \<Rightarrow> fl \<Rightarrow> fl" where
  "chebyshev1 n v = fl_cos (Fin (real n) * fl_arccos v)"

definition chebyshev_derivative1 :: "nat \<Rightarrow> fl \<Rightarrow> fl" where
  "chebyshev_derivative1 n v =
     Fin (real n) * fl_sin (Fin (real n) * fl_arccos v) / fl_sqrt (Fin 1 - fl_pow v 2)"

definition out_of_domain :: "'a ChebyshevPolynomialGeometry_scheme \<Rightarrow> fl \<Rightarrow> fl \<Rightarrow> bool" where
  "out_of_domain g x y =
     (fl_gt \<bar>x / norm_x g\<bar> (Fin 1) \<or> fl_gt \<bar>y / norm_y g\<bar> (Fin 1))"

definition cheb_sag1 :: "'a ChebyshevPolynomialGeometry_scheme \<Rightarrow> fl \<Rightarrow> fl \<Rightarrow> fl" where
  "cheb_sag1 g x y =
     foldl
       (\<lambda>z (i, j).
          z + cheb_c g ! i ! j * chebyshev1 i (x / norm_x g) * chebyshev1 j (y / norm_y g))
       (conic_sag1 g x y) (argwhere_nonzero (cheb_c g))"

definition cheb_slopes1 :: "'a ChebyshevPolynomialGeometry_scheme \<Rightarrow> fl \<Rightarrow> fl \<Rightarrow> fl \<times> fl" where
  "cheb_slopes1 g x y =
     (let denom = radius g * conic_root g x y
      in foldl
           (\<lambda>(dzdx, dzdy) (i, j).
              (dzdx + chebyshev_derivative1 i (x / norm_x g) * cheb_c g ! i ! j
                        * chebyshev1 j (y / norm_y g),
               dzdy + chebyshev_derivative1 j (y / norm_y g) * cheb_c g ! i ! j
                        * chebyshev1 i (x / norm_x g)))
           (x / denom, y / denom) (argwhere_nonzero (cheb_c g)))"

definition cheb_normal1 ::
  "'a ChebyshevPolynomialGeometry_scheme \<Rightarrow> fl \<Rightarrow> fl \<Rightarrow> fl \<times> fl \<times> fl" where
  "cheb_normal1 g x y =
     (case cheb_slopes1 g x y of
        (dzdx, dzdy) \<Rightarrow>
          (let norm = slope_mag dzdx dzdy in ((- dzdx) / norm, (- dzdy) / norm, Fin 1 / norm)))"

text \<open>
  The magnitude by which each variant scales its normal at one point, and the \<open>i\<close>-th
  normal of a batch with its squared length.
\<close>

definition standard_mag1 :: "'a StandardGeometry_scheme \<Rightarrow> fl \<Rightarrow> fl \<Rightarrow> fl" where
  "standard_mag1 g x y =
     (let denom = (- radius g) * conic_root g x y in slope_mag (x / denom) (y / denom))"

definition asph_mag1 :: "'a EvenAsphere_scheme \<Rightarrow> fl \<Rightarrow> fl \<Rightarrow> fl" where
  "asph_mag1 g x y = (case asph_slopes1 g x y of (dfdx, dfdy) \<Rightarrow> slope_mag dfdx dfdy)"

definition cheb_mag1 :: "'a ChebyshevPolynomialGeometry_scheme \<Rightarrow> fl \<Rightarrow> fl \<Rightarrow> fl" where
  "cheb_mag1 g x y = (case cheb_slopes1 g x y of (dzdx, dzdy) \<Rightarrow> slope_mag dzdx dzdy)"

definition normal_at :: "fl list \<times> fl list \<times> fl list \<Rightarrow> nat \<Rightarrow> fl \<times> fl \<times> fl" where
  "normal_at n i = (case n of (nx, ny, nz) \<Rightarrow> (nx ! i, ny ! i, nz ! i))"

definition magnitude2 :: "fl \<times> fl \<times> fl \<Rightarrow> fl" where
  "magnitude2 n = (case n of (nx, ny, nz) \<Rightarrow> fl_pow nx 2 + fl_pow ny 2 + fl_pow nz 2)"

text \<open>
  Where the normal is defined: the coordinates are finite and the square root of the
  conic term is a positive real number (\<open>regular_ray\<close>); for the Chebyshev terms, whose
  derivative divides by \<open>sqrt(1 - u**2)\<close>, the normalised coordinates lie strictly inside
  the interval from -1 to 1 (\<open>inside_ray\<close>).
\<close>

definition positive_finite :: "fl \<Rightarrow> bool" where
  "positive_finite v = (case v of Fin s \<Rightarrow> 0 < s | _ \<Rightarrow> False)"

definition strictly_inside :: "fl \<Rightarrow> bool" where
  "strictly_inside v = (case v of Fin u \<Rightarrow> \<bar>u\<bar> < 1 | _ \<Rightarrow> False)"

definition regular_ray :: "'a StandardGeometry_scheme \<Rightarrow> ray \<Rightarrow> bool" where
  "regular_ray g r =
     (isfinite (ray_x r) \<and> isfinite (ray_y r) \<and>
      positive_finite (conic_root g (ray_x r) (ray_y r)))"

definition inside_ray :: "'a ChebyshevPolynomialGeometry_scheme \<Rightarrow> ray \<Rightarrow> bool" where
  "inside_ray g r =
     (strictly_inside (ray_x r / norm_x g) \<and> strictly_inside (ray_y r / norm_y g))"

section \<open>The array code computes ray by ray\<close>

lemma fl_pow_Fin [simp]: "fl_pow (Fin x) n = Fin (x ^ n)"
  by (cases n) simp_all

lemma fl_pow_PInf [simp]: "0 < n \<Longrightarrow> fl_pow PInf n = PInf"
  by (cases n) simp_all

lemma fl_pow_NInf [simp]: "0 < n \<Longrightarrow> fl_pow NInf n = (if even n then PInf else NInf)"
  by (cases n) simp_all

lemma fl_pow_NaN [simp]: "0 < n \<Longrightarrow> fl_pow NaN n = NaN"
  by (cases n) simp_all

lemma zip_map_same [simp]: "zip (map f xs) (map g xs) = map (\<lambda>x. (f x, g x)) xs"
  by (induction xs) simp_all

lemma mask_get_map: "mask_get (map f xs) (map p xs) = map f (filter p xs)"
  by (induction xs) (simp_all add: mask_get_def)

lemma mask_put_map:
  "mask_put (map t xs) (map p xs) (map h (filter p xs)) =
     map (\<lambda>x. if p x then h x else t x) xs"
  by (induction xs) simp_all

lemmas vec_defs = vadd_def vsub_def vmul_def vdiv_def vpow_def vneg_def vsqrt_def vabs_def

lemma distance_pointwise: "StandardGeometry_distance g rays = map (distance1 g) rays"
  unfolding StandardGeometry_distance_def Let_def vec_defs mask_fill_def np_where_def
  apply (simp add: mask_get_map o_def)
  apply (subst mask_put_map)
  apply (simp add: distance1_def forward_def root1_def root2_def discriminant_def
      quad_a_def quad_b_def quad_c_def Let_def)
  done

lemma standard_sag_pointwise:
  "StandardGeometry_sag g (map fst pts) (map snd pts) = map (\<lambda>(x, y). conic_sag1 g x y) pts"
  by (simp add: StandardGeometry_sag_def Let_def vec_defs o_def conic_sag1_def conic_root_def
      split_def)

lemma standard_normal_pointwise:
  "StandardGeometry_surface_normal g rays =
     (map (\<lambda>r. fst (standard_normal1 g (ray_x r) (ray_y r))) rays,
      map (\<lambda>r. fst (snd (standard_normal1 g (ray_x r) (ray_y r)))) rays,
      map (\<lambda>r. snd (snd (standard_normal1 g (ray_x r) (ray_y r)))) rays)"
  by (simp add: StandardGeometry_surface_normal_def Let_def vec_defs o_def standard_normal1_def
      conic_root_def slope_mag_def split_def)

lemma foldl_vec_pointwise:
  "foldl (\<lambda>z c. map (\<lambda>p. fst p + snd p) (zip z (map (f c) pts))) (map g pts) cs =
     map (\<lambda>p. foldl (\<lambda>z c. z + f c p) (g p) cs) pts"
  by (induction cs arbitrary: g) simp_all

lemma foldl_vec2_pointwise:
  "foldl (\<lambda>s c. (map (\<lambda>p. fst p + snd p) (zip (fst s) (map (hx c) pts)),
                  map (\<lambda>p. fst p + snd p) (zip (snd s) (map (hy c) pts))))
       (map gx pts, map gy pts) cs =
     (map (\<lambda>p. fst (foldl (\<lambda>s c. (fst s + hx c p, snd s + hy c p)) (gx p, gy p) cs)) pts,
      map (\<lambda>p. snd (foldl (\<lambda>s c. (fst s + hx c p, snd s + hy c p)) (gx p, gy p) cs)) pts)"
  by (induction cs arbitrary: gx gy) simp_all

lemma asph_sag_pointwise:
  "EvenAsphere_sag g (map fst pts) (map snd pts) = map (\<lambda>(x, y). asph_sag1 g x y) pts"
  by (simp add: EvenAsphere_sag_def Let_def vec_defs o_def foldl_vec_pointwise
      asph_sag1_def conic_sag1_def conic_root_def split_def)

lemma asph_normal_pointwise:
  "EvenAsphere_surface_normal g (map fst pts) (map snd pts) =
     (map (\<lambda>(x, y). fst (asph_normal1 g x y)) pts,
      map (\<lambda>(x, y). fst (snd (asph_normal1 g x y))) pts,
      map (\<lambda>(x, y). snd (snd (asph_normal1 g x y))) pts)"
  by (simp add: EvenAsphere_surface_normal_def Let_def vec_defs o_def foldl_vec2_pointwise
      asph_normal1_def asph_slopes1_def slope_mag_def conic_root_def split_def)

lemma cheb_domain_pointwise:
  "(list_ex (\<lambda>v. fl_gt \<bar>v\<bar> (Fin 1)) (map (\<lambda>v. v / norm_x g) (map fst pts)) \<or>
    list_ex (\<lambda>v. fl_gt \<bar>v\<bar> (Fin 1)) (map (\<lambda>v. v / norm_y g) (map snd pts))) =
   list_ex (\<lambda>(x, y). out_of_domain g x y) pts"
  by (induction pts) (auto simp: out_of_domain_def)

lemma cheb_sag_pointwise:
  "ChebyshevPolynomialGeometry_sag g (map fst pts) (map snd pts) =
     (if list_ex (\<lambda>(x, y). out_of_domain g x y) pts then Inl ValueError
      else Inr (map (\<lambda>(x, y). cheb_sag1 g x y) pts))"
  unfolding ChebyshevPolynomialGeometry_sag_def Let_def cheb_domain_pointwise
  by (simp add: Let_def vec_defs o_def foldl_vec_pointwise chebyshev_def chebyshev1_def
      cheb_sag1_def conic_sag1_def conic_root_def split_def)

lemma cheb_normal_pointwise:
  "ChebyshevPolynomialGeometry_surface_normal g (map fst pts) (map snd pts) =
     (if list_ex (\<lambda>(x, y). out_of_domain g x y) pts then Inl ValueError
      else Inr (map (\<lambda>(x, y). fst (cheb_normal1 g x y)) pts,
                map (\<lambda>(x, y). fst (snd (cheb_normal1 g x y))) pts,
                map (\<lambda>(x, y). snd (snd (cheb_normal1 g x y))) pts))"
  unfolding ChebyshevPolynomialGeometry_surface_normal_def Let_def cheb_domain_pointwise
  by (simp add: Let_def vec_defs o_def foldl_vec2_pointwise chebyshev_def chebyshev1_def
      chebyshev_derivative_def chebyshev_derivative1_def
      cheb_normal1_def cheb_slopes1_def slope_mag_def conic_root_def split_def)

section \<open>Properties of the paraxial rays\<close>

lemma iadd_length: "iadd a b = Inr c \<Longrightarrow> length c = length a"
  by (auto simp: iadd_def split: if_splits)

lemma propagate_frame:
  "pr_x (snd (propagate t r)) = pr_x r \<and> pr_u (snd (propagate t r)) = pr_u r \<and>
   pr_w (snd (propagate t r)) = pr_w r \<and> pr_i (snd (propagate t r)) = pr_i r \<and>
   pr_z (snd (propagate t r)) = map (\<lambda>v. v + t) (pr_z r)"
  by (simp add: propagate_def Let_def split: sum.splits)

lemma propagate_length_y: "length (pr_y (snd (propagate t r))) = length (pr_y r)"
  by (auto simp: propagate_def Let_def split: sum.splits dest: iadd_length)

text \<open>
  C8, as stated, fails on a batch whose \<open>u\<close> cannot be broadcast to \<open>y\<close>: with \<open>y\<close> of
  length 2 and \<open>u\<close> of length 3, \<open>propagate(2)\<close> raises the \<open>ValueError\<close> of the in-place
  addition after \<open>z\<close> was updated, and \<open>y\<close> is left as it was.
\<close>

theorem propagate_raises_on_mismatch:
  "propagate (Fin 2)
     \<lparr>pr_y = [Fin 1, Fin 2], pr_z = [Fin 0, Fin 0], pr_u = [Fin 1, Fin 2, Fin 3],
      pr_x = [Fin 0, Fin 0], pr_i = [Fin 1, Fin 1], pr_w = [Fin 5, Fin 5]\<rparr> =
   (Some ValueError,
    \<lparr>pr_y = [Fin 1, Fin 2], pr_z = [Fin 2, Fin 2], pr_u = [Fin 1, Fin 2, Fin 3],
      pr_x = [Fin 0, Fin 0], pr_i = [Fin 1, Fin 1], pr_w = [Fin 5, Fin 5]\<rparr>) \<and>
   pr_y (snd (propagate (Fin 2)
     \<lparr>pr_y = [Fin 1, Fin 2], pr_z = [Fin 0, Fin 0], pr_u = [Fin 1, Fin 2, Fin 3],
      pr_x = [Fin 0, Fin 0], pr_i = [Fin 1, Fin 1], pr_w = [Fin 5, Fin 5]\<rparr>)) \<noteq>
   map2 (\<lambda>a b. a + Fin 2 * b) [Fin 1, Fin 2] [Fin 1, Fin 2, Fin 3]"
  by (simp add: propagate_def iadd_def)

text \<open>
  C8, amended. For every batch and every \<open>t\<close>, \<open>propagate(t)\<close> leaves \<open>x\<close>, \<open>u\<close>, \<open>w\<close> and
  \<open>i\<close> as they were and replaces \<open>z\<close> by \<open>z + t\<close>. When \<open>u\<close> is as long as \<open>y\<close> it raises
  nothing and replaces \<open>y\<close> by \<open>y + t * u\<close>, ray by ray; when \<open>u\<close> has another length,
  which is one, it raises nothing and replaces \<open>y\<close> by \<open>y + t * u[0]\<close>, ray by ray;
  otherwise it raises the \<open>ValueError\<close> and leaves \<open>y\<close> as it was.
\<close>

theorem propagate_updates:
  "pr_x (snd (propagate t r)) = pr_x r \<and> pr_u (snd (propagate t r)) = pr_u r \<and>
   pr_w (snd (propagate t r)) = pr_w r \<and> pr_i (snd (propagate t r)) = pr_i r \<and>
   pr_z (snd (propagate t r)) = map (\<lambda>v. v + t) (pr_z r) \<and>
   (length (pr_u r) = length (pr_y r) \<longrightarrow>
      fst (propagate t r) = None \<and>
      pr_y (snd (propagate t r)) = map2 (\<lambda>a b. a + t * b) (pr_y r) (pr_u r)) \<and>
   (length (pr_u r) \<noteq> length (pr_y r) \<and> length (pr_u r) = 1 \<longrightarrow>
      fst (propagate t r) = None \<and>
      pr_y (snd (propagate t r)) = map (\<lambda>a. a + t * hd (pr_u r)) (pr_y r)) \<and>
   (length (pr_u r) \<noteq> length (pr_y r) \<and> length (pr_u r) \<noteq> 1 \<longrightarrow>
      fst (propagate t r) = Some ValueError \<and>
      pr_y (snd (propagate t r)) = pr_y r)"
proof -
  have same: "length (pr_u r) = length (pr_y r) \<Longrightarrow>
      fst (propagate t r) = None \<and>
      pr_y (snd (propagate t r)) = map2 (\<lambda>a b. a + t * b) (pr_y r) (pr_u r)"
    by (simp add: propagate_def iadd_def zip_map2 split_def)
  have one: "length (pr_u r) \<noteq> length (pr_y r) \<Longrightarrow> length (pr_u r) = 1 \<Longrightarrow>
      fst (propagate t r) = None \<and>
      pr_y (snd (propagate t r)) = map (\<lambda>a. a + t * hd (pr_u r)) (pr_y r)"
    by (cases "pr_u r") (simp_all add: propagate_def iadd_def)
  have other: "length (pr_u r) \<noteq> length (pr_y r) \<Longrightarrow> length (pr_u r) \<noteq> 1 \<Longrightarrow>
      fst (propagate t r) = Some ValueError \<and> pr_y (snd (propagate t r)) = pr_y r"
    by (simp add: propagate_def iadd_def)
  from same one other propagate_frame [of t r] show ?thesis by blast
qed

theorem propagate_updates_witness:
  "propagate (Fin 3)
     \<lparr>pr_y = [Fin 1], pr_z = [Fin 0], pr_u = [Fin 2], pr_x = [Fin 0],
      pr_i = [Fin 1], pr_w = [Fin 5]\<rparr> =
   (None, \<lparr>pr_y = [Fin 7], pr_z = [Fin 3], pr_u = [Fin 2], pr_x = [Fin 0],
           pr_i = [Fin 1], pr_w = [Fin 5]\<rparr>) \<and>
   propagate (Fin 2)
     \<lparr>pr_y = [Fin 1, Fin 2], pr_z = [Fin 0, Fin 0], pr_u = [Fin 3], pr_x = [Fin 0, Fin 0],
      pr_i = [Fin 1, Fin 1], pr_w = [Fin 5, Fin 5]\<rparr> =
   (None, \<lparr>pr_y = [Fin 7, Fin 8], pr_z = [Fin 2, Fin 2], pr_u = [Fin 3], pr_x = [Fin 0, Fin 0],
           pr_i = [Fin 1, Fin 1], pr_w = [Fin 5, Fin 5]\<rparr>) \<and>
   propagate (Fin 2)
     \<lparr>pr_y = [Fin 1], pr_z = [Fin 0], pr_u = [], pr_x = [Fin 0],
      pr_i = [Fin 1], pr_w = [Fin 5]\<rparr> =
   (Some ValueError, \<lparr>pr_y = [Fin 1], pr_z = [Fin 2], pr_u = [], pr_x = [Fin 0],
           pr_i = [Fin 1], pr_w = [Fin 5]\<rparr>)"
proof -
  let ?a = "\<lparr>pr_y = [Fin 1], pr_z = [Fin 0], pr_u = [Fin 2], pr_x = [Fin 0],
      pr_i = [Fin 1], pr_w = [Fin 5]\<rparr>"
  let ?b = "\<lparr>pr_y = [Fin 1, Fin 2], pr_z = [Fin 0, Fin 0], pr_u = [Fin 3], pr_x = [Fin 0, Fin 0],
      pr_i = [Fin 1, Fin 1], pr_w = [Fin 5, Fin 5]\<rparr>"
  let ?c = "\<lparr>pr_y = [Fin 1], pr_z = [Fin 0], pr_u = [], pr_x = [Fin 0],
      pr_i = [Fin 1], pr_w = [Fin 5]\<rparr>"
  have a: "propagate (Fin 3) ?a = (fst (propagate (Fin 3) ?a), snd (propagate (Fin 3) ?a))"
    and b: "propagate (Fin 2) ?b = (fst (propagate (Fin 2) ?b), snd (propagate (Fin 2) ?b))"
    and c: "propagate (Fin 2) ?c = (fst (propagate (Fin 2) ?c), snd (propagate (Fin 2) ?c))"
    by simp_all
  have ra: "snd (propagate (Fin 3) ?a) =
      \<lparr>pr_y = [Fin 7], pr_z = [Fin 3], pr_u = [Fin 2], pr_x = [Fin 0],
       pr_i = [Fin 1], pr_w = [Fin 5]\<rparr> \<and> fst (propagate (Fin 3) ?a) = None"
    using propagate_updates [of "Fin 3" ?a] by (cases "snd (propagate (Fin 3) ?a)") simp
  have rb: "snd (propagate (Fin 2) ?b) =
      \<lparr>pr_y = [Fin 7, Fin 8], pr_z = [Fin 2, Fin 2], pr_u = [Fin 3], pr_x = [Fin 0, Fin 0],
       pr_i = [Fin 1, Fin 1], pr_w = [Fin 5, Fin 5]\<rparr> \<and> fst (propagate (Fin 2) ?b) = None"
    using propagate_updates [of "Fin 2" ?b] by (cases "snd (propagate (Fin 2) ?b)") simp
  have rc: "snd (propagate (Fin 2) ?c) =
      \<lparr>pr_y = [Fin 1], pr_z = [Fin 2], pr_u = [], pr_x = [Fin 0],
       pr_i = [Fin 1], pr_w = [Fin 5]\<rparr> \<and> fst (propagate (Fin 2) ?c) = Some ValueError"
    using propagate_updates [of "Fin 2" ?c] by (cases "snd (propagate (Fin 2) ?c)") simp
  from a b c ra rb rc show ?thesis by simp
qed

text \<open>
  C10. A constructed \<open>ParaxialRays\<close> has \<open>x\<close> all zeros and \<open>i\<close> all ones, both as long
  as \<open>y\<close>; \<open>propagate\<close> keeps this, whether it raises or not, and so does every
  sequence of calls of \<open>propagate\<close>.
\<close>

theorem init_on_axis_valid:
  "(ParaxialRays_init process_input y u z wavelength = Inr r \<longrightarrow> on_axis_valid r) \<and>
   (on_axis_valid r' \<longrightarrow>
      on_axis_valid (snd (propagate t r')) \<and>
      on_axis_valid (foldl (\<lambda>s t. snd (propagate t s)) r' ts))"
proof -
  have init: "on_axis_valid r"
    if "ParaxialRays_init process_input y u z wavelength = Inr r"
    using that
    by (auto simp: ParaxialRays_init_def on_axis_valid_def zeros_like_def ones_like_def
          map_replicate_const split: sum.splits)
  have step: "on_axis_valid (snd (propagate t s))" if "on_axis_valid s" for t s
    using that propagate_frame [of t s] propagate_length_y [of t s]
    by (simp add: on_axis_valid_def)
  have many: "on_axis_valid s \<Longrightarrow> on_axis_valid (foldl (\<lambda>s t. snd (propagate t s)) s ts)"
    for s
    by (induction ts arbitrary: s) (simp_all add: step)
  from init step many show ?thesis by blast
qed

theorem init_on_axis_valid_witness:
  "ParaxialRays_init (\<lambda>v. Inr [Fin v] :: error + fl list) 1 2 0 5 =
     Inr \<lparr>pr_y = [Fin 1], pr_z = [Fin 0], pr_u = [Fin 2], pr_x = [Fin 0],
          pr_i = [Fin 1], pr_w = [Fin 5]\<rparr> \<and>
   on_axis_valid \<lparr>pr_y = [Fin 1], pr_z = [Fin 0], pr_u = [Fin 2], pr_x = [Fin 0],
          pr_i = [Fin 1], pr_w = [Fin 5]\<rparr> \<and>
   on_axis_valid (snd (propagate (Fin 3)
       \<lparr>pr_y = [Fin 1], pr_z = [Fin 0], pr_u = [Fin 2], pr_x = [Fin 0],
        pr_i = [Fin 1], pr_w = [Fin 5]\<rparr>))"
proof -
  have c: "ParaxialRays_init (\<lambda>v. Inr [Fin v] :: error + fl list) 1 2 0 5 =
     Inr \<lparr>pr_y = [Fin 1], pr_z = [Fin 0], pr_u = [Fin 2], pr_x = [Fin 0],
          pr_i = [Fin 1], pr_w = [Fin 5]\<rparr>"
    by (simp add: ParaxialRays_init_def zeros_like_def ones_like_def)
  from c init_on_axis_valid
    [of "\<lambda>v. Inr [Fin v] :: error + fl list" 1 2 0 5
        "\<lparr>pr_y = [Fin 1], pr_z = [Fin 0], pr_u = [Fin 2], pr_x = [Fin 0],
          pr_i = [Fin 1], pr_w = [Fin 5]\<rparr>"
        "\<lparr>pr_y = [Fin 1], pr_z = [Fin 0], pr_u = [Fin 2], pr_x = [Fin 0],
          pr_i = [Fin 1], pr_w = [Fin 5]\<rparr>" "Fin 3" "[]"]
  show ?thesis by blast
qed

section \<open>Properties of the distance to the standard geometry\<close>

lemma fl_add_NaN [simp]: "a + NaN = NaN"
  by (cases a) simp_all

lemma fl_mul_NaN [simp]: "a * NaN = NaN"
  by (cases a) simp_all

lemma fl_div_NaN [simp]: "a / NaN = NaN"
  by (cases a) simp_all

lemma fl_lt_NaN [simp]: "\<not> fl_lt a NaN"
  by (cases a) simp_all

lemma fl_le_NaN [simp]: "\<not> fl_le NaN b" "\<not> fl_le a NaN"
  by (simp_all add: fl_le_def fl_eq_def)

lemma fl_sqrt_negative: "fl_lt d (Fin 0) \<Longrightarrow> fl_sqrt d = NaN"
  by (cases d) simp_all

lemma fl_square_not_negative: "\<not> fl_lt (fl_pow b 2) (Fin 0)"
  by (cases b) simp_all

lemma sqrt_4: "sqrt 4 = 2"
  using real_sqrt_abs [of 2] by simp

lemma sqrt_16: "sqrt 16 = 4"
  using real_sqrt_abs [of 4] by simp

lemma discriminant_negative_quadratic:
  assumes "fl_lt (discriminant g r) (Fin 0)"
  shows "\<not> fl_eq (quad_a g r) (Fin 0)"
proof
  assume "fl_eq (quad_a g r) (Fin 0)"
  then have a: "quad_a g r = Fin 0" by (simp add: fl_eq_def)
  have "\<not> fl_lt (fl_pow (quad_b g r) 2 - Fin 4 * Fin 0 * quad_c g r) (Fin 0)"
    by (cases "quad_b g r"; cases "quad_c g r") (simp_all add: minus_fl_def)
  with assms a show False by (simp add: discriminant_def)
qed

lemma distance1_no_intersection:
  assumes "fl_lt (discriminant g r) (Fin 0)"
  shows "distance1 g r = NaN"
  using discriminant_negative_quadratic [OF assms] fl_sqrt_negative [OF assms]
  by (simp add: distance1_def root1_def root2_def forward_def minus_fl_def)

text \<open>
  On the quadratic branch (\<open>a\<close> is not zero) every finite distance is non-negative.
\<close>

lemma distance1_quadratic_forward:
  "\<not> fl_eq (quad_a g r) (Fin 0) \<Longrightarrow> distance1 g r = Fin v \<Longrightarrow> 0 \<le> v"
  by (auto simp: distance1_def forward_def Let_def split: if_splits)

text \<open>
  C2. The distance of a ray on the linear branch (\<open>a == 0\<close>) is \<open>-c / b\<close>, assigned after
  the roots behind the ray were set to infinity and not filtered itself: for the
  paraboloid of radius 10 (conic -1) and the ray from \<open>z = 5\<close> along the axis, whose
  only intersection is the vertex behind it, the returned distance is \<open>-5\<close>.
\<close>

theorem distance_behind_linear_branch:
  "quad_a \<lparr>radius = Fin 10, conic = Fin (- 1)\<rparr>
     \<lparr>ray_x = Fin 0, ray_y = Fin 0, ray_z = Fin 5, ray_L = Fin 0, ray_M = Fin 0, ray_N = Fin 1\<rparr>
   = Fin 0 \<and>
   StandardGeometry_distance \<lparr>radius = Fin 10, conic = Fin (- 1)\<rparr>
     [\<lparr>ray_x = Fin 0, ray_y = Fin 0, ray_z = Fin 5, ray_L = Fin 0, ray_M = Fin 0, ray_N = Fin 1\<rparr>]
   = [Fin (- 5)] \<and>
   isfinite (Fin (- 5)) \<and> fl_lt (Fin (- 5)) (Fin 0)"
  by (simp add: StandardGeometry_distance_def Let_def vec_defs mask_fill_def np_where_def
      mask_get_def fl_eq_def minus_fl_def quad_a_def isfinite_def)

text \<open>
  When the ray is not perpendicular to the axis (\<open>N\<close> is not zero) and the two roots are
  finite, the quadratic branch returns one of the two roots (a root behind the ray
  replaced by infinity) and no root gives a point nearer to the vertex plane.
\<close>

lemma distance1_nearest_root:
  assumes "\<not> fl_eq (quad_a g r) (Fin 0)"
    and "root1 g r = Fin t1" and "root2 g r = Fin t2"
    and "ray_z r = Fin z" and "ray_N r = Fin n" and "n \<noteq> 0"
  shows "(distance1 g r = forward (root1 g r) \<or> distance1 g r = forward (root2 g r)) \<and>
     fl_le \<bar>ray_z r + distance1 g r * ray_N r\<bar> \<bar>ray_z r + forward (root1 g r) * ray_N r\<bar> \<and>
     fl_le \<bar>ray_z r + distance1 g r * ray_N r\<bar> \<bar>ray_z r + forward (root2 g r) * ray_N r\<bar>"
  using assms
  by (auto simp: distance1_def forward_def Let_def fl_le_def fl_eq_def)

text \<open>
  C3. For the sphere of radius 2 and the ray from its centre \<open>(0, 0, 2)\<close> in direction
  \<open>(1, 0, 0)\<close>, \<open>a\<close> is 1 and the discriminant is 16; the first root, 2, lies ahead and
  keeps \<open>z\<close> at 2; the second, -2, is replaced by infinity, and \<open>z + inf * 0\<close> is NaN, so
  that the comparison \<open>|z1| <= |z2|\<close> is false and the infinity is returned.
\<close>

theorem distance_perpendicular_ray:
  "quad_a \<lparr>radius = Fin 2, conic = Fin 0\<rparr>
     \<lparr>ray_x = Fin 0, ray_y = Fin 0, ray_z = Fin 2, ray_L = Fin 1, ray_M = Fin 0, ray_N = Fin 0\<rparr>
   = Fin 1 \<and>
   discriminant \<lparr>radius = Fin 2, conic = Fin 0\<rparr>
     \<lparr>ray_x = Fin 0, ray_y = Fin 0, ray_z = Fin 2, ray_L = Fin 1, ray_M = Fin 0, ray_N = Fin 0\<rparr>
   = Fin 16 \<and>
   forward (root1 \<lparr>radius = Fin 2, conic = Fin 0\<rparr>
     \<lparr>ray_x = Fin 0, ray_y = Fin 0, ray_z = Fin 2, ray_L = Fin 1, ray_M = Fin 0, ray_N = Fin 0\<rparr>)
   = Fin 2 \<and>
   forward (root2 \<lparr>radius = Fin 2, conic = Fin 0\<rparr>
     \<lparr>ray_x = Fin 0, ray_y = Fin 0, ray_z = Fin 2, ray_L = Fin 1, ray_M = Fin 0, ray_N = Fin 0\<rparr>)
   = PInf \<and>
   StandardGeometry_distance \<lparr>radius = Fin 2, conic = Fin 0\<rparr>
     [\<lparr>ray_x = Fin 0, ray_y = Fin 0, ray_z = Fin 2, ray_L = Fin 1, ray_M = Fin 0, ray_N = Fin 0\<rparr>]
   = [PInf] \<and>
   \<bar>Fin 2 + Fin 2 * Fin 0\<bar> = Fin 2 \<and> \<bar>Fin 2 + PInf * Fin 0\<bar> = NaN \<and>
   \<not> fl_le \<bar>Fin 2 + PInf * Fin 0\<bar> \<bar>Fin 2 + Fin 2 * Fin 0\<bar>"
  by (simp add: StandardGeometry_distance_def Let_def vec_defs mask_fill_def np_where_def
      mask_get_def fl_eq_def minus_fl_def sqrt_16 quad_a_def quad_b_def quad_c_def
      discriminant_def root1_def root2_def forward_def)

lemma distance1_quadratic:
  "\<not> fl_eq (quad_a g r) (Fin 0) \<Longrightarrow>
   distance1 g r =
     (if fl_le \<bar>ray_z r + forward (root1 g r) * ray_N r\<bar> \<bar>ray_z r + forward (root2 g r) * ray_N r\<bar>
      then forward (root1 g r) else forward (root2 g r))"
  by (simp add: distance1_def Let_def)

lemma distance1_linear:
  "fl_eq (quad_a g r) (Fin 0) \<Longrightarrow> distance1 g r = (- quad_c g r) / quad_b g r"
  by (simp add: distance1_def Let_def)

lemma roots_real:
  assumes "quad_a g r = Fin a" and "a \<noteq> 0" and "quad_b g r = Fin b"
    and "discriminant g r = Fin d" and "0 \<le> d"
  shows "root1 g r = Fin ((- b + sqrt d) / (2 * a))"
    and "root2 g r = Fin ((- b - sqrt d) / (2 * a))"
  using assms by (simp_all add: root1_def root2_def minus_fl_def)

text \<open>
  C7. \<open>distance\<close> raises nothing and returns one distance for each ray of the batch; the
  distance of a ray is the one that the ray gets when it is traced alone, whatever the
  other rays of the batch are. A ray whose discriminant is negative gets NaN. A ray whose
  \<open>a\<close> is not zero gets the first root, a root behind the ray replaced by infinity, when
  \<open>|z1| <= |z2|\<close> holds, and the second otherwise; a ray whose \<open>a\<close> is zero gets \<open>-c / b\<close>.
  In particular a ray with finite \<open>a\<close> (not zero) and \<open>b\<close> and a non-negative
  discriminant \<open>d\<close> gets \<open>(-b + sqrt(d)) / (2a)\<close> or \<open>(-b - sqrt(d)) / (2a)\<close>, or infinity
  in place of a negative one.
\<close>

theorem distance_no_intersection:
  "length (StandardGeometry_distance g rays) = length rays \<and>
   (\<forall>i<length rays.
      StandardGeometry_distance g [rays ! i] = [StandardGeometry_distance g rays ! i]) \<and>
   (\<forall>i<length rays.
      fl_lt (discriminant g (rays ! i)) (Fin 0) \<longrightarrow> StandardGeometry_distance g rays ! i = NaN) \<and>
   (\<forall>i<length rays.
      \<not> fl_eq (quad_a g (rays ! i)) (Fin 0) \<longrightarrow>
      StandardGeometry_distance g rays ! i =
        (if fl_le \<bar>ray_z (rays ! i) + forward (root1 g (rays ! i)) * ray_N (rays ! i)\<bar>
                  \<bar>ray_z (rays ! i) + forward (root2 g (rays ! i)) * ray_N (rays ! i)\<bar>
         then forward (root1 g (rays ! i)) else forward (root2 g (rays ! i)))) \<and>
   (\<forall>i<length rays.
      fl_eq (quad_a g (rays ! i)) (Fin 0) \<longrightarrow>
      StandardGeometry_distance g rays ! i = (- quad_c g (rays ! i)) / quad_b g (rays ! i)) \<and>
   (\<forall>i<length rays. \<forall>a b d.
      quad_a g (rays ! i) = Fin a \<and> a \<noteq> 0 \<and> quad_b g (rays ! i) = Fin b \<and>
      discriminant g (rays ! i) = Fin d \<and> 0 \<le> d \<longrightarrow>
      StandardGeometry_distance g rays ! i = forward (Fin ((- b + sqrt d) / (2 * a))) \<or>
      StandardGeometry_distance g rays ! i = forward (Fin ((- b - sqrt d) / (2 * a))))"
proof (intro conjI allI impI)
  show "length (StandardGeometry_distance g rays) = length rays"
    by (simp add: distance_pointwise)
next
  fix i assume "i < length rays"
  then show "StandardGeometry_distance g [rays ! i] = [StandardGeometry_distance g rays ! i]"
    by (simp add: distance_pointwise)
next
  fix i assume "i < length rays" and "fl_lt (discriminant g (rays ! i)) (Fin 0)"
  then show "StandardGeometry_distance g rays ! i = NaN"
    by (simp add: distance_pointwise distance1_no_intersection)
next
  fix i assume "i < length rays" and "\<not> fl_eq (quad_a g (rays ! i)) (Fin 0)"
  then show "StandardGeometry_distance g rays ! i =
        (if fl_le \<bar>ray_z (rays ! i) + forward (root1 g (rays ! i)) * ray_N (rays ! i)\<bar>
                  \<bar>ray_z (rays ! i) + forward (root2 g (rays ! i)) * ray_N (rays ! i)\<bar>
         then forward (root1 g (rays ! i)) else forward (root2 g (rays ! i)))"
    by (simp add: distance_pointwise distance1_quadratic)
next
  fix i assume "i < length rays" and "fl_eq (quad_a g (rays ! i)) (Fin 0)"
  then show "StandardGeometry_distance g rays ! i =
      (- quad_c g (rays ! i)) / quad_b g (rays ! i)"
    by (simp add: distance_pointwise distance1_linear)
next
  fix i a b d
  assume i: "i < length rays"
    and h: "quad_a g (rays ! i) = Fin a \<and> a \<noteq> 0 \<and> quad_b g (rays ! i) = Fin b \<and>
      discriminant g (rays ! i) = Fin d \<and> 0 \<le> d"
  from h have na: "\<not> fl_eq (quad_a g (rays ! i)) (Fin 0)" by (simp add: fl_eq_def)
  from h have r1: "root1 g (rays ! i) = Fin ((- b + sqrt d) / (2 * a))"
    and r2: "root2 g (rays ! i) = Fin ((- b - sqrt d) / (2 * a))"
    by (simp_all add: roots_real)
  from i have "StandardGeometry_distance g rays ! i = distance1 g (rays ! i)"
    by (simp add: distance_pointwise)
  with distance1_quadratic [OF na] r1 r2
  show "StandardGeometry_distance g rays ! i = forward (Fin ((- b + sqrt d) / (2 * a))) \<or>
      StandardGeometry_distance g rays ! i = forward (Fin ((- b - sqrt d) / (2 * a)))"
    by (simp split: if_splits)
qed

theorem distance_no_intersection_witness:
  "fl_lt (discriminant \<lparr>radius = Fin 1, conic = Fin 0\<rparr>
      \<lparr>ray_x = Fin 5, ray_y = Fin 0, ray_z = Fin 0, ray_L = Fin 0, ray_M = Fin 0, ray_N = Fin 1\<rparr>)
     (Fin 0) \<and>
   quad_a \<lparr>radius = Fin 1, conic = Fin 0\<rparr>
      \<lparr>ray_x = Fin 0, ray_y = Fin 0, ray_z = Fin (- 5), ray_L = Fin 0, ray_M = Fin 0,
        ray_N = Fin 1\<rparr> = Fin 1 \<and>
   quad_b \<lparr>radius = Fin 1, conic = Fin 0\<rparr>
      \<lparr>ray_x = Fin 0, ray_y = Fin 0, ray_z = Fin (- 5), ray_L = Fin 0, ray_M = Fin 0,
        ray_N = Fin 1\<rparr> = Fin (- 12) \<and>
   discriminant \<lparr>radius = Fin 1, conic = Fin 0\<rparr>
      \<lparr>ray_x = Fin 0, ray_y = Fin 0, ray_z = Fin (- 5), ray_L = Fin 0, ray_M = Fin 0,
        ray_N = Fin 1\<rparr> = Fin 4 \<and>
   quad_a \<lparr>radius = Fin 10, conic = Fin (- 1)\<rparr>
      \<lparr>ray_x = Fin 0, ray_y = Fin 0, ray_z = Fin (- 5), ray_L = Fin 0, ray_M = Fin 0,
        ray_N = Fin 1\<rparr> = Fin 0 \<and>
   StandardGeometry_distance \<lparr>radius = Fin 1, conic = Fin 0\<rparr>
     [\<lparr>ray_x = Fin 5, ray_y = Fin 0, ray_z = Fin 0, ray_L = Fin 0, ray_M = Fin 0, ray_N = Fin 1\<rparr>,
      \<lparr>ray_x = Fin 0, ray_y = Fin 0, ray_z = Fin (- 5), ray_L = Fin 0, ray_M = Fin 0,
        ray_N = Fin 1\<rparr>] ! 0
   = NaN \<and>
   StandardGeometry_distance \<lparr>radius = Fin 1, conic = Fin 0\<rparr>
     [\<lparr>ray_x = Fin 5, ray_y = Fin 0, ray_z = Fin 0, ray_L = Fin 0, ray_M = Fin 0, ray_N = Fin 1\<rparr>,
      \<lparr>ray_x = Fin 0, ray_y = Fin 0, ray_z = Fin (- 5), ray_L = Fin 0, ray_M = Fin 0,
        ray_N = Fin 1\<rparr>] ! 1
   = Fin 5 \<and>
   StandardGeometry_distance \<lparr>radius = Fin 10, conic = Fin (- 1)\<rparr>
     [\<lparr>ray_x = Fin 0, ray_y = Fin 0, ray_z = Fin (- 5), ray_L = Fin 0, ray_M = Fin 0,
        ray_N = Fin 1\<rparr>] ! 0
   = Fin 5"
proof -
  let ?g = "\<lparr>radius = Fin 1, conic = Fin 0\<rparr>"
  let ?p = "\<lparr>radius = Fin 10, conic = Fin (- 1)\<rparr>"
  let ?r0 = "\<lparr>ray_x = Fin 5, ray_y = Fin 0, ray_z = Fin 0, ray_L = Fin 0, ray_M = Fin 0,
               ray_N = Fin 1\<rparr>"
  let ?r1 = "\<lparr>ray_x = Fin 0, ray_y = Fin 0, ray_z = Fin (- 5), ray_L = Fin 0, ray_M = Fin 0,
               ray_N = Fin 1\<rparr>"
  have len: "0 < length [?r0, ?r1]" "1 < length [?r0, ?r1]" "0 < length [?r1]" by simp_all
  have d0: "fl_lt (discriminant ?g ([?r0, ?r1] ! 0)) (Fin 0)"
    by (simp add: discriminant_def quad_a_def quad_b_def quad_c_def minus_fl_def)
  have a1: "quad_a ?g ?r1 = Fin 1" and b1: "quad_b ?g ?r1 = Fin (- 12)"
    and d1: "discriminant ?g ?r1 = Fin 4"
    by (simp_all add: discriminant_def quad_a_def quad_b_def quad_c_def minus_fl_def)
  have q1: "\<not> fl_eq (quad_a ?g ([?r0, ?r1] ! 1)) (Fin 0)"
    using a1 by (simp add: fl_eq_def)
  have ap: "quad_a ?p ?r1 = Fin 0"
    by (simp add: quad_a_def)
  have qp: "fl_eq (quad_a ?p ([?r1] ! 0)) (Fin 0)"
    using ap by (simp add: fl_eq_def)
  note T = distance_no_intersection [of ?g "[?r0, ?r1]"]
  note P = distance_no_intersection [of ?p "[?r1]"]
  from T len(1) d0 have v0: "StandardGeometry_distance ?g [?r0, ?r1] ! 0 = NaN"
    by blast
  from T len(2) q1 have "StandardGeometry_distance ?g [?r0, ?r1] ! 1 =
      (if fl_le \<bar>ray_z ([?r0, ?r1] ! 1) + forward (root1 ?g ([?r0, ?r1] ! 1)) * ray_N ([?r0, ?r1] ! 1)\<bar>
                \<bar>ray_z ([?r0, ?r1] ! 1) + forward (root2 ?g ([?r0, ?r1] ! 1)) * ray_N ([?r0, ?r1] ! 1)\<bar>
       then forward (root1 ?g ([?r0, ?r1] ! 1)) else forward (root2 ?g ([?r0, ?r1] ! 1)))"
    by blast
  also have "\<dots> = Fin 5"
    using roots_real [OF a1 _ b1 d1]
    by (simp add: forward_def fl_le_def fl_eq_def sqrt_4)
  finally have v1: "StandardGeometry_distance ?g [?r0, ?r1] ! 1 = Fin 5" .
  from P len(3) qp have "StandardGeometry_distance ?p [?r1] ! 0 =
      (- quad_c ?p ([?r1] ! 0)) / quad_b ?p ([?r1] ! 0)"
    by blast
  also have "\<dots> = Fin 5"
    by (simp add: quad_b_def quad_c_def minus_fl_def)
  finally have vp: "StandardGeometry_distance ?p [?r1] ! 0 = Fin 5" .
  from d0 a1 b1 d1 ap v0 v1 vp show ?thesis by simp
qed

section \<open>The domain check of the Chebyshev geometry\<close>

lemma fl_le_not_gt: "fl_le a b \<Longrightarrow> \<not> fl_gt a b"
  by (cases a; cases b) (auto simp: fl_le_def fl_gt_def fl_eq_def)

lemma cheb_sag_raises_iff:
  "ChebyshevPolynomialGeometry_sag g x y = Inl ValueError \<longleftrightarrow>
     (\<exists>v\<in>set x. fl_gt \<bar>v / norm_x g\<bar> (Fin 1)) \<or> (\<exists>v\<in>set y. fl_gt \<bar>v / norm_y g\<bar> (Fin 1))"
  by (simp add: ChebyshevPolynomialGeometry_sag_def Let_def list_ex_iff)

lemma cheb_normal_raises_iff:
  "ChebyshevPolynomialGeometry_surface_normal g x y = Inl ValueError \<longleftrightarrow>
     (\<exists>v\<in>set x. fl_gt \<bar>v / norm_x g\<bar> (Fin 1)) \<or> (\<exists>v\<in>set y. fl_gt \<bar>v / norm_y g\<bar> (Fin 1))"
  by (simp add: ChebyshevPolynomialGeometry_surface_normal_def Let_def list_ex_iff split_def)

lemma cheb_sag_result:
  assumes "length x = length y"
    and "ChebyshevPolynomialGeometry_sag g x y \<noteq> Inl ValueError"
  shows "\<exists>z. ChebyshevPolynomialGeometry_sag g x y = Inr z \<and> length z = length x"
proof -
  have "ChebyshevPolynomialGeometry_sag g x y =
      (if list_ex (\<lambda>(x, y). out_of_domain g x y) (zip x y) then Inl ValueError
       else Inr (map (\<lambda>(x, y). cheb_sag1 g x y) (zip x y)))"
    using cheb_sag_pointwise [of g "zip x y"] assms(1) by simp
  with assms show ?thesis by (auto split: if_splits)
qed

lemma cheb_normal_result:
  assumes "length x = length y"
    and "ChebyshevPolynomialGeometry_surface_normal g x y \<noteq> Inl ValueError"
  shows "\<exists>nx ny nz. ChebyshevPolynomialGeometry_surface_normal g x y = Inr (nx, ny, nz) \<and>
     length nx = length x \<and> length ny = length x \<and> length nz = length x"
proof -
  have "ChebyshevPolynomialGeometry_surface_normal g x y =
      (if list_ex (\<lambda>(x, y). out_of_domain g x y) (zip x y) then Inl ValueError
       else Inr (map (\<lambda>(x, y). fst (cheb_normal1 g x y)) (zip x y),
                 map (\<lambda>(x, y). fst (snd (cheb_normal1 g x y))) (zip x y),
                 map (\<lambda>(x, y). snd (snd (cheb_normal1 g x y))) (zip x y)))"
    using cheb_normal_pointwise [of g "zip x y"] assms(1) by simp
  with assms show ?thesis by (auto split: if_splits)
qed

text \<open>
  C4. On a batch (\<open>x\<close> and \<open>y\<close> of one length) \<open>sag\<close> and \<open>_surface_normal\<close> raise the
  \<open>ValueError\<close> exactly when some coordinate has \<open>|x / norm_x| > 1\<close> or
  \<open>|y / norm_y| > 1\<close>; a batch whose coordinates all have \<open>|u| <= 1\<close>, the boundary
  included, is accepted; and a call either raises, with no result for any ray, or
  returns a result for every ray.
\<close>

theorem chebyshev_domain_error:
  assumes "length x = length y"
  shows "(ChebyshevPolynomialGeometry_sag g x y = Inl ValueError \<longleftrightarrow>
            (\<exists>v\<in>set x. fl_gt \<bar>v / norm_x g\<bar> (Fin 1)) \<or>
            (\<exists>v\<in>set y. fl_gt \<bar>v / norm_y g\<bar> (Fin 1))) \<and>
         (ChebyshevPolynomialGeometry_surface_normal g x y = Inl ValueError \<longleftrightarrow>
            (\<exists>v\<in>set x. fl_gt \<bar>v / norm_x g\<bar> (Fin 1)) \<or>
            (\<exists>v\<in>set y. fl_gt \<bar>v / norm_y g\<bar> (Fin 1))) \<and>
         ((\<forall>v\<in>set x. fl_le \<bar>v / norm_x g\<bar> (Fin 1)) \<and>
          (\<forall>v\<in>set y. fl_le \<bar>v / norm_y g\<bar> (Fin 1)) \<longrightarrow>
            ChebyshevPolynomialGeometry_sag g x y \<noteq> Inl ValueError \<and>
            ChebyshevPolynomialGeometry_surface_normal g x y \<noteq> Inl ValueError) \<and>
         (ChebyshevPolynomialGeometry_sag g x y = Inl ValueError \<or>
            (\<exists>z. ChebyshevPolynomialGeometry_sag g x y = Inr z \<and> length z = length x)) \<and>
         (ChebyshevPolynomialGeometry_surface_normal g x y = Inl ValueError \<or>
            (\<exists>nx ny nz. ChebyshevPolynomialGeometry_surface_normal g x y = Inr (nx, ny, nz) \<and>
               length nx = length x \<and> length ny = length x \<and> length nz = length x))"
proof -
  have boundary: "ChebyshevPolynomialGeometry_sag g x y \<noteq> Inl ValueError \<and>
      ChebyshevPolynomialGeometry_surface_normal g x y \<noteq> Inl ValueError"
    if "\<forall>v\<in>set x. fl_le \<bar>v / norm_x g\<bar> (Fin 1)" "\<forall>v\<in>set y. fl_le \<bar>v / norm_y g\<bar> (Fin 1)"
    using that by (auto simp: cheb_sag_raises_iff cheb_normal_raises_iff dest: fl_le_not_gt)
  from boundary cheb_sag_raises_iff [of g x y] cheb_normal_raises_iff [of g x y]
    cheb_sag_result [OF assms, of g] cheb_normal_result [OF assms, of g]
  show ?thesis by blast
qed

theorem chebyshev_domain_error_witness:
  "length [Fin 2, Fin 0 :: fl] = length [Fin 0, Fin (- 2) :: fl] \<and>
   ChebyshevPolynomialGeometry_sag
     \<lparr>radius = Fin 10, conic = Fin 0, cheb_c = [[Fin 0, Fin 1]], norm_x = Fin 2, norm_y = Fin 2\<rparr>
     [Fin 2, Fin 0] [Fin 0, Fin (- 2)] \<noteq> Inl ValueError \<and>
   ChebyshevPolynomialGeometry_sag
     \<lparr>radius = Fin 10, conic = Fin 0, cheb_c = [[Fin 0, Fin 1]], norm_x = Fin 2, norm_y = Fin 2\<rparr>
     [Fin 3, Fin 0] [Fin 0, Fin 0] = Inl ValueError"
proof -
  let ?g = "\<lparr>radius = Fin 10, conic = Fin 0, cheb_c = [[Fin 0, Fin 1]], norm_x = Fin 2,
              norm_y = Fin 2\<rparr>"
  have 1: "length [Fin 2, Fin 0 :: fl] = length [Fin 0, Fin (- 2) :: fl]" by simp
  have 2: "length [Fin 3, Fin 0 :: fl] = length [Fin 0, Fin 0 :: fl]" by simp
  have "ChebyshevPolynomialGeometry_sag ?g [Fin 2, Fin 0] [Fin 0, Fin (- 2)] \<noteq> Inl ValueError"
    using chebyshev_domain_error [OF 1, of ?g] by (simp add: fl_le_def fl_eq_def fl_gt_def)
  moreover have "ChebyshevPolynomialGeometry_sag ?g [Fin 3, Fin 0] [Fin 0, Fin 0] = Inl ValueError"
    using chebyshev_domain_error [OF 2, of ?g] by (simp add: fl_gt_def)
  ultimately show ?thesis by simp
qed

section \<open>Zero coefficients\<close>

lemma isfinite_iff: "isfinite v \<longleftrightarrow> (\<exists>x. v = Fin x)"
  by (cases v) (simp_all add: isfinite_def)

lemma fl_neg_neg [simp]: "- (- a) = (a :: fl)"
  by (cases a) simp_all

lemma fl_neg_mul_left: "(- a) * b = - (a * b :: fl)"
  by (cases a; cases b) simp_all

lemma fl_neg_div_left: "(- a) / b = - (a / b :: fl)"
  by (cases a; cases b) simp_all

lemma fl_pow_neg_2 [simp]: "fl_pow (- a) 2 = fl_pow a 2"
  by (cases a) simp_all

lemma fl_add_zero [simp]: "a + Fin 0 = a"
  by (cases a) simp_all

lemma fl_div_neg_right: "D \<noteq> Fin 0 \<Longrightarrow> a / (- D) = - (a / D)"
  by (cases a; cases D) auto

lemma slope_mag_neg [simp]: "slope_mag (- a) (- b) = slope_mag a b"
  by (simp add: slope_mag_def)

lemma normal_neg_denominator:
  "(Fin x / (- D)) / slope_mag (Fin x / (- D)) (Fin y / (- D)) =
     (- (Fin x / D)) / slope_mag (Fin x / D) (Fin y / D) \<and>
   (Fin y / (- D)) / slope_mag (Fin x / (- D)) (Fin y / (- D)) =
     (- (Fin y / D)) / slope_mag (Fin x / D) (Fin y / D) \<and>
   Fin c / slope_mag (Fin x / (- D)) (Fin y / (- D)) = Fin c / slope_mag (Fin x / D) (Fin y / D)"
proof (cases "D = Fin 0")
  case True
  then show ?thesis
    by (auto simp: slope_mag_def)
next
  case False
  then show ?thesis by (simp add: fl_div_neg_right)
qed

lemma asph_sag_fold_zero:
  "foldl (\<lambda>z (i, Ci). z + Ci * Fin (f i)) z0 (enumerate n (replicate m (Fin 0))) = z0"
  by (induction m arbitrary: n) simp_all

lemma asph_slopes_fold_zero:
  "foldl (\<lambda>(dfdx, dfdy) (i, Ci).
            (dfdx + Fin (f i) * Ci * Fin (h i), dfdy + Fin (f' i) * Ci * Fin (h' i)))
      (a, b) (enumerate n (replicate m (Fin 0))) = (a, b)"
  by (induction m arbitrary: n) simp_all

lemma argwhere_nonzero_zeros: "argwhere_nonzero (replicate m (replicate l (Fin 0))) = []"
  by (simp add: argwhere_nonzero_def fl_ne_def fl_eq_def)

lemma asph_sag1_zero:
  "isfinite x \<Longrightarrow> isfinite y \<Longrightarrow>
   asph_sag1 \<lparr>radius = R, conic = k, asph_c = replicate n (Fin 0)\<rparr> x y =
     conic_sag1 \<lparr>radius = R, conic = k\<rparr> x y"
  by (auto simp: isfinite_iff asph_sag1_def asph_sag_fold_zero conic_sag1_def conic_root_def)

lemma cheb_sag1_zero:
  "cheb_sag1 \<lparr>radius = R, conic = k, cheb_c = replicate m (replicate l (Fin 0)),
       norm_x = nx, norm_y = ny\<rparr> x y =
     conic_sag1 \<lparr>radius = R, conic = k\<rparr> x y"
  by (simp add: cheb_sag1_def argwhere_nonzero_zeros conic_sag1_def conic_root_def)

lemma cheb_normal1_zero_Fin:
  "cheb_normal1 \<lparr>radius = R, conic = k, cheb_c = replicate m (replicate l (Fin 0)),
       norm_x = nx, norm_y = ny\<rparr> (Fin x) (Fin y) =
     standard_normal1 \<lparr>radius = R, conic = k\<rparr> (Fin x) (Fin y)"
  using normal_neg_denominator [of x "R * conic_root \<lparr>radius = R, conic = k\<rparr> (Fin x) (Fin y)" y 1]
  by (simp add: cheb_normal1_def cheb_slopes1_def argwhere_nonzero_zeros standard_normal1_def
      conic_root_def Let_def fl_neg_mul_left)

lemma cheb_normal1_zero:
  "isfinite x \<Longrightarrow> isfinite y \<Longrightarrow>
   cheb_normal1 \<lparr>radius = R, conic = k, cheb_c = replicate m (replicate l (Fin 0)),
       norm_x = nx, norm_y = ny\<rparr> x y =
     standard_normal1 \<lparr>radius = R, conic = k\<rparr> x y"
  by (auto simp: isfinite_iff cheb_normal1_zero_Fin)

lemma asph_normal1_zero_Fin:
  "asph_normal1 \<lparr>radius = R, conic = k, asph_c = replicate n (Fin 0)\<rparr> (Fin x) (Fin y) =
     (case standard_normal1 \<lparr>radius = R, conic = k\<rparr> (Fin x) (Fin y) of
        (nx, ny, nz) \<Rightarrow> (- nx, - ny, - nz))"
  using normal_neg_denominator [of x "R * conic_root \<lparr>radius = R, conic = k\<rparr> (Fin x) (Fin y)" y 1]
  by (simp add: asph_normal1_def asph_slopes1_def asph_slopes_fold_zero standard_normal1_def
      conic_root_def Let_def fl_neg_mul_left fl_neg_div_left [symmetric])

lemma asph_normal1_zero:
  "isfinite x \<Longrightarrow> isfinite y \<Longrightarrow>
   asph_normal1 \<lparr>radius = R, conic = k, asph_c = replicate n (Fin 0)\<rparr> x y =
     (case standard_normal1 \<lparr>radius = R, conic = k\<rparr> x y of
        (nx, ny, nz) \<Rightarrow> (- nx, - ny, - nz))"
  by (auto simp: isfinite_iff asph_normal1_zero_Fin)

lemma columns_as_points:
  "map ray_x rays = map fst (map (\<lambda>r. (ray_x r, ray_y r)) rays)"
  "map ray_y rays = map snd (map (\<lambda>r. (ray_x r, ray_y r)) rays)"
  by (simp_all add: o_def)

lemma asph_sag_rays:
  "EvenAsphere_sag g (map ray_x rays) (map ray_y rays) =
     map (\<lambda>r. asph_sag1 g (ray_x r) (ray_y r)) rays"
  unfolding columns_as_points asph_sag_pointwise by (simp add: o_def)

lemma asph_normal_rays:
  "EvenAsphere_surface_normal g (map ray_x rays) (map ray_y rays) =
     (map (\<lambda>r. fst (asph_normal1 g (ray_x r) (ray_y r))) rays,
      map (\<lambda>r. fst (snd (asph_normal1 g (ray_x r) (ray_y r)))) rays,
      map (\<lambda>r. snd (snd (asph_normal1 g (ray_x r) (ray_y r)))) rays)"
  unfolding columns_as_points asph_normal_pointwise by (simp add: o_def)

lemma standard_sag_rays:
  "StandardGeometry_sag g (map ray_x rays) (map ray_y rays) =
     map (\<lambda>r. conic_sag1 g (ray_x r) (ray_y r)) rays"
  unfolding columns_as_points standard_sag_pointwise by (simp add: o_def)

lemma cheb_sag_rays:
  "ChebyshevPolynomialGeometry_sag g (map ray_x rays) (map ray_y rays) =
     (if list_ex (\<lambda>r. out_of_domain g (ray_x r) (ray_y r)) rays then Inl ValueError
      else Inr (map (\<lambda>r. cheb_sag1 g (ray_x r) (ray_y r)) rays))"
  unfolding columns_as_points cheb_sag_pointwise by (simp add: o_def list_ex_iff)

lemma cheb_normal_rays:
  "ChebyshevPolynomialGeometry_surface_normal g (map ray_x rays) (map ray_y rays) =
     (if list_ex (\<lambda>r. out_of_domain g (ray_x r) (ray_y r)) rays then Inl ValueError
      else Inr (map (\<lambda>r. fst (cheb_normal1 g (ray_x r) (ray_y r))) rays,
                map (\<lambda>r. fst (snd (cheb_normal1 g (ray_x r) (ray_y r)))) rays,
                map (\<lambda>r. snd (snd (cheb_normal1 g (ray_x r) (ray_y r)))) rays))"
  unfolding columns_as_points cheb_normal_pointwise by (simp add: o_def list_ex_iff)

text \<open>
  C1, as stated, fails for the normal of the even asphere: at the vertex of the sphere of
  radius 1 the even asphere with no coefficients returns \<open>(0, 0, -1)\<close> and the standard
  geometry \<open>(0, 0, 1)\<close>.
\<close>

theorem even_asphere_normal_not_standard:
  "conic_root \<lparr>radius = Fin 1, conic = Fin 0\<rparr> (Fin 0) (Fin 0) = Fin 1 \<and>
   EvenAsphere_surface_normal \<lparr>radius = Fin 1, conic = Fin 0, asph_c = []\<rparr> [Fin 0] [Fin 0] =
     ([Fin 0], [Fin 0], [Fin (- 1)]) \<and>
   StandardGeometry_surface_normal \<lparr>radius = Fin 1, conic = Fin 0\<rparr>
     [\<lparr>ray_x = Fin 0, ray_y = Fin 0, ray_z = Fin 0, ray_L = Fin 0, ray_M = Fin 0, ray_N = Fin 1\<rparr>] =
     ([Fin 0], [Fin 0], [Fin 1]) \<and>
   EvenAsphere_surface_normal \<lparr>radius = Fin 1, conic = Fin 0, asph_c = []\<rparr> [Fin 0] [Fin 0] \<noteq>
   StandardGeometry_surface_normal \<lparr>radius = Fin 1, conic = Fin 0\<rparr>
     [\<lparr>ray_x = Fin 0, ray_y = Fin 0, ray_z = Fin 0, ray_L = Fin 0, ray_M = Fin 0, ray_N = Fin 1\<rparr>]"
  by (simp add: EvenAsphere_surface_normal_def StandardGeometry_surface_normal_def Let_def
      vec_defs minus_fl_def conic_root_def)

text \<open>
  C1, amended. On a batch of rays with finite \<open>x\<close> and \<open>y\<close> that passes the domain check
  of the Chebyshev geometry, and for the same radius and conic: the even asphere with an
  empty or all-zero coefficient list returns the sag of the standard geometry, and the
  Chebyshev geometry with an all-zero coefficient array returns the sag and the normal of
  the standard geometry; the normal of the even asphere is the normal of the standard
  geometry with every component negated.
\<close>

theorem zero_coefficients_conic:
  assumes fin: "\<forall>r\<in>set rays. isfinite (ray_x r) \<and> isfinite (ray_y r)"
    and dom: "\<forall>r\<in>set rays. \<not> fl_gt \<bar>ray_x r / nx\<bar> (Fin 1) \<and> \<not> fl_gt \<bar>ray_y r / ny\<bar> (Fin 1)"
  shows
    "EvenAsphere_sag \<lparr>radius = R, conic = k, asph_c = replicate n (Fin 0)\<rparr>
        (map ray_x rays) (map ray_y rays) =
       StandardGeometry_sag \<lparr>radius = R, conic = k\<rparr> (map ray_x rays) (map ray_y rays) \<and>
     ChebyshevPolynomialGeometry_sag
        \<lparr>radius = R, conic = k, cheb_c = replicate m (replicate l (Fin 0)), norm_x = nx,
          norm_y = ny\<rparr> (map ray_x rays) (map ray_y rays) =
       Inr (StandardGeometry_sag \<lparr>radius = R, conic = k\<rparr> (map ray_x rays) (map ray_y rays)) \<and>
     ChebyshevPolynomialGeometry_surface_normal
        \<lparr>radius = R, conic = k, cheb_c = replicate m (replicate l (Fin 0)), norm_x = nx,
          norm_y = ny\<rparr> (map ray_x rays) (map ray_y rays) =
       Inr (StandardGeometry_surface_normal \<lparr>radius = R, conic = k\<rparr> rays) \<and>
     EvenAsphere_surface_normal \<lparr>radius = R, conic = k, asph_c = replicate n (Fin 0)\<rparr>
        (map ray_x rays) (map ray_y rays) =
       (case StandardGeometry_surface_normal \<lparr>radius = R, conic = k\<rparr> rays of
          (nx, ny, nz) \<Rightarrow> (vneg nx, vneg ny, vneg nz))"
proof -
  let ?gc = "\<lparr>radius = R, conic = k, cheb_c = replicate m (replicate l (Fin 0)), norm_x = nx,
               norm_y = ny\<rparr>"
  have ok: "\<not> list_ex (\<lambda>r. out_of_domain ?gc (ray_x r) (ray_y r)) rays"
    using dom by (auto simp: list_ex_iff out_of_domain_def)
  have 1: "EvenAsphere_sag \<lparr>radius = R, conic = k, asph_c = replicate n (Fin 0)\<rparr>
        (map ray_x rays) (map ray_y rays) =
       StandardGeometry_sag \<lparr>radius = R, conic = k\<rparr> (map ray_x rays) (map ray_y rays)"
    unfolding asph_sag_rays standard_sag_rays
    using fin by (simp add: asph_sag1_zero)
  have 2: "ChebyshevPolynomialGeometry_sag ?gc (map ray_x rays) (map ray_y rays) =
       Inr (StandardGeometry_sag \<lparr>radius = R, conic = k\<rparr> (map ray_x rays) (map ray_y rays))"
    unfolding cheb_sag_rays standard_sag_rays using ok by (simp add: cheb_sag1_zero)
  have 3: "ChebyshevPolynomialGeometry_surface_normal ?gc (map ray_x rays) (map ray_y rays) =
       Inr (StandardGeometry_surface_normal \<lparr>radius = R, conic = k\<rparr> rays)"
    unfolding cheb_normal_rays standard_normal_pointwise using ok fin
    by (simp add: cheb_normal1_zero)
  have 4: "EvenAsphere_surface_normal \<lparr>radius = R, conic = k, asph_c = replicate n (Fin 0)\<rparr>
        (map ray_x rays) (map ray_y rays) =
       (case StandardGeometry_surface_normal \<lparr>radius = R, conic = k\<rparr> rays of
          (nx, ny, nz) \<Rightarrow> (vneg nx, vneg ny, vneg nz))"
    unfolding asph_normal_rays standard_normal_pointwise using fin
    by (simp add: asph_normal1_zero vneg_def split_def)
  from 1 2 3 4 show ?thesis by blast
qed

theorem zero_coefficients_conic_witness:
  "isfinite (Fin 3) \<and> isfinite (Fin 4) \<and>
   \<not> fl_gt \<bar>Fin 3 / Fin 5\<bar> (Fin 1) \<and> \<not> fl_gt \<bar>Fin 4 / Fin 5\<bar> (Fin 1) \<and>
   ChebyshevPolynomialGeometry_sag
     \<lparr>radius = Fin 13, conic = Fin (- 1), cheb_c = replicate 2 (replicate 3 (Fin 0)),
       norm_x = Fin 5, norm_y = Fin 5\<rparr> [Fin 3] [Fin 4] = Inr [Fin (25 / 26)] \<and>
   EvenAsphere_sag \<lparr>radius = Fin 13, conic = Fin (- 1), asph_c = replicate 2 (Fin 0)\<rparr>
     [Fin 3] [Fin 4] = [Fin (25 / 26)] \<and>
   ChebyshevPolynomialGeometry_surface_normal
     \<lparr>radius = Fin 13, conic = Fin (- 1), cheb_c = replicate 2 (replicate 3 (Fin 0)),
       norm_x = Fin 5, norm_y = Fin 5\<rparr> [Fin 3] [Fin 4] =
     Inr (StandardGeometry_surface_normal \<lparr>radius = Fin 13, conic = Fin (- 1)\<rparr>
       [\<lparr>ray_x = Fin 3, ray_y = Fin 4, ray_z = Fin 0, ray_L = Fin 0, ray_M = Fin 0,
         ray_N = Fin 1\<rparr>])"
proof -
  let ?r = "\<lparr>ray_x = Fin 3, ray_y = Fin 4, ray_z = Fin 0, ray_L = Fin 0, ray_M = Fin 0,
              ray_N = Fin 1\<rparr>"
  have fin: "\<forall>r\<in>set [?r]. isfinite (ray_x r) \<and> isfinite (ray_y r)"
    by (simp add: isfinite_def)
  have dom: "\<forall>r\<in>set [?r]. \<not> fl_gt \<bar>ray_x r / Fin 5\<bar> (Fin 1) \<and> \<not> fl_gt \<bar>ray_y r / Fin 5\<bar> (Fin 1)"
    by (simp add: fl_gt_def)
  have sag: "StandardGeometry_sag \<lparr>radius = Fin 13, conic = Fin (- 1)\<rparr> [Fin 3] [Fin 4] =
      [Fin (25 / 26)]"
    by (simp add: StandardGeometry_sag_def Let_def vec_defs minus_fl_def)
  from zero_coefficients_conic [OF fin dom, of "Fin 13" "Fin (- 1)" 2 2 3] sag fin dom
  show ?thesis by simp
qed

section \<open>The surface normals\<close>

lemma positive_finite_iff: "positive_finite v \<longleftrightarrow> (\<exists>s. v = Fin s \<and> 0 < s)"
  by (cases v) (simp_all add: positive_finite_def)

lemma strictly_inside_iff: "strictly_inside v \<longleftrightarrow> (\<exists>u. v = Fin u \<and> \<bar>u\<bar> < 1)"
  by (cases v) (simp_all add: strictly_inside_def)

lemma slope_mag_Fin: "slope_mag (Fin a) (Fin b) = Fin (sqrt (a\<^sup>2 + b\<^sup>2 + 1))"
  by (simp add: slope_mag_def add_nonneg_nonneg)

lemma mag_positive: "0 < sqrt (a\<^sup>2 + b\<^sup>2 + 1 :: real)"
  by (simp add: add_nonneg_pos)

lemma unit_vector:
  "magnitude2 (Fin a / slope_mag (Fin a') (Fin b'), Fin b / slope_mag (Fin a') (Fin b'),
       Fin c / slope_mag (Fin a') (Fin b')) =
     Fin ((a\<^sup>2 + b\<^sup>2 + c\<^sup>2) / (a'\<^sup>2 + b'\<^sup>2 + 1))"
proof -
  have m: "sqrt (a'\<^sup>2 + b'\<^sup>2 + 1) \<noteq> 0" using mag_positive [of a' b'] by simp
  have sq: "(sqrt (a'\<^sup>2 + b'\<^sup>2 + 1))\<^sup>2 = a'\<^sup>2 + b'\<^sup>2 + 1"
    by (simp add: add_nonneg_nonneg)
  show ?thesis
    using m by (simp add: magnitude2_def slope_mag_Fin power_divide sq add_divide_distrib)
qed

lemma conic_root_radius:
  assumes "positive_finite (conic_root g x y)"
  shows "(\<exists>r. radius g = Fin r \<and> r \<noteq> 0) \<or> radius g = PInf \<or> radius g = NInf"
proof (cases "radius g")
  case (Fin r)
  show ?thesis
  proof (cases "r = 0")
    case True
    have "\<not> positive_finite (fl_sqrt (Fin 1 - A / Fin 0))" for A
      by (cases A) (auto simp: positive_finite_def minus_fl_def)
    with assms Fin True show ?thesis by (simp add: conic_root_def)
  next
    case False
    with Fin show ?thesis by simp
  qed
next
  case NaN
  with assms show ?thesis by (simp add: conic_root_def positive_finite_def minus_fl_def)
qed simp_all

lemma conic_denominator:
  assumes "positive_finite (conic_root g x y)"
  shows "(\<exists>d. radius g * conic_root g x y = Fin d \<and> d \<noteq> 0) \<or>
         radius g * conic_root g x y = PInf \<or> radius g * conic_root g x y = NInf"
  using conic_root_radius [OF assms] assms by (auto simp: positive_finite_iff)

lemma conic_slopes_finite:
  assumes "positive_finite (conic_root g x y)" and "isfinite v"
  shows "isfinite (v / (radius g * conic_root g x y))"
    and "isfinite (v / ((- radius g) * conic_root g x y))"
  using conic_denominator [OF assms(1)] assms(2)
  by (auto simp: isfinite_iff fl_neg_mul_left)

lemma isfinite_Fin [simp]: "isfinite (Fin a)"
  by (simp add: isfinite_def)

lemma isfinite_add: "isfinite a \<Longrightarrow> isfinite b \<Longrightarrow> isfinite (a + b)"
  by (auto simp: isfinite_iff)

lemma isfinite_mul: "isfinite a \<Longrightarrow> isfinite b \<Longrightarrow> isfinite (a * b)"
  by (auto simp: isfinite_iff)

lemma isfinite_pow: "isfinite a \<Longrightarrow> isfinite (fl_pow a n)"
  by (auto simp: isfinite_iff)

lemma foldl_invariant:
  "P s \<Longrightarrow> (\<And>s c. P s \<Longrightarrow> c \<in> set cs \<Longrightarrow> P (f s c)) \<Longrightarrow> P (foldl f s cs)"
  by (induction cs arbitrary: s) simp_all

lemma asph_slopes_finite:
  assumes x: "isfinite x" and y: "isfinite y"
    and root: "positive_finite (conic_root g x y)"
    and coef: "\<forall>c\<in>set (asph_c g). isfinite c"
  shows "isfinite (fst (asph_slopes1 g x y)) \<and> isfinite (snd (asph_slopes1 g x y))"
proof -
  let ?P = "\<lambda>s :: fl \<times> fl. isfinite (fst s) \<and> isfinite (snd s)"
  let ?f = "\<lambda>(dfdx, dfdy) (i, Ci).
      (dfdx + Fin (real (2 * (i + 1))) * x * Ci * fl_pow (fl_pow x 2 + fl_pow y 2) i,
       dfdy + Fin (real (2 * (i + 1))) * y * Ci * fl_pow (fl_pow x 2 + fl_pow y 2) i)"
  let ?D = "radius g * conic_root g x y"
  have start: "?P (x / ?D, y / ?D)"
    using conic_slopes_finite(1) [OF root x] conic_slopes_finite(1) [OF root y] by simp
  have step: "?P (?f s c)" if "?P s" and "c \<in> set (enumerate 0 (asph_c g))" for s c
  proof -
    from that(2) have "snd c \<in> set (asph_c g)"
      by (metis in_set_enumerate_eq diff_zero nth_mem add_0_right)
    with coef have "isfinite (snd c)" by blast
    with that(1) x y show ?thesis
      by (simp add: split_def isfinite_add isfinite_mul isfinite_pow)
  qed
  have "?P (foldl ?f (x / ?D, y / ?D) (enumerate 0 (asph_c g)))"
    by (rule foldl_invariant [where P = ?P, OF start step])
  then show ?thesis by (simp add: asph_slopes1_def Let_def)
qed

lemma argwhere_nonzero_in_range:
  "(i, j) \<in> set (argwhere_nonzero c) \<Longrightarrow> i < length c \<and> j < length (c ! i)"
  by (auto simp: argwhere_nonzero_def split: if_splits)

lemma chebyshev1_finite: "strictly_inside v \<Longrightarrow> isfinite (chebyshev1 n v)"
  by (auto simp: strictly_inside_iff chebyshev1_def)

lemma chebyshev_derivative1_finite: "strictly_inside v \<Longrightarrow> isfinite (chebyshev_derivative1 n v)"
proof -
  assume "strictly_inside v"
  then obtain u where v: "v = Fin u" and u: "\<bar>u\<bar> < 1" by (auto simp: strictly_inside_iff)
  from u have "u\<^sup>2 < 1" by (simp add: abs_square_less_1)
  then have "0 < sqrt (1 - u\<^sup>2)" by simp
  with u v show ?thesis
    by (simp add: chebyshev_derivative1_def minus_fl_def)
qed

lemma cheb_slopes_finite:
  assumes x: "isfinite x" and y: "isfinite y"
    and root: "positive_finite (conic_root g x y)"
    and coef: "\<forall>row\<in>set (cheb_c g). \<forall>c\<in>set row. isfinite c"
    and inside: "(strictly_inside (x / norm_x g) \<and> strictly_inside (y / norm_y g)) \<or>
                 argwhere_nonzero (cheb_c g) = []"
  shows "isfinite (fst (cheb_slopes1 g x y)) \<and> isfinite (snd (cheb_slopes1 g x y))"
proof -
  let ?P = "\<lambda>s :: fl \<times> fl. isfinite (fst s) \<and> isfinite (snd s)"
  let ?f = "\<lambda>(dzdx, dzdy) (i, j).
      (dzdx + chebyshev_derivative1 i (x / norm_x g) * cheb_c g ! i ! j
                * chebyshev1 j (y / norm_y g),
       dzdy + chebyshev_derivative1 j (y / norm_y g) * cheb_c g ! i ! j
                * chebyshev1 i (x / norm_x g))"
  let ?D = "radius g * conic_root g x y"
  have start: "?P (x / ?D, y / ?D)"
    using conic_slopes_finite(1) [OF root x] conic_slopes_finite(1) [OF root y] by simp
  have step: "?P (?f s c)" if "?P s" and "c \<in> set (argwhere_nonzero (cheb_c g))" for s c
  proof -
    from that(2) inside
    have in_x: "strictly_inside (x / norm_x g)" and in_y: "strictly_inside (y / norm_y g)"
      by auto
    from that(2) have "fst c < length (cheb_c g)" "snd c < length (cheb_c g ! fst c)"
      using argwhere_nonzero_in_range [of "fst c" "snd c" "cheb_c g"] by simp_all
    with coef have "isfinite (cheb_c g ! fst c ! snd c)"
      by (meson nth_mem)
    with that(1) in_x in_y show ?thesis
      by (simp add: split_def isfinite_add isfinite_mul chebyshev1_finite
          chebyshev_derivative1_finite)
  qed
  have "?P (foldl ?f (x / ?D, y / ?D) (argwhere_nonzero (cheb_c g)))"
    by (rule foldl_invariant [where P = ?P, OF start step])
  then show ?thesis by (simp add: cheb_slopes1_def Let_def)
qed

lemma scaled_vector:
  assumes "isfinite A" and "isfinite B"
  shows "magnitude2 (A / slope_mag A B, B / slope_mag A B, Fin 1 / slope_mag A B) = Fin 1"
    and "magnitude2 (A / slope_mag A B, B / slope_mag A B, Fin (- 1) / slope_mag A B) = Fin 1"
    and "magnitude2 ((- A) / slope_mag A B, (- B) / slope_mag A B, Fin 1 / slope_mag A B) = Fin 1"
    and "fl_gt (Fin 1 / slope_mag A B) (Fin 0)"
    and "fl_lt (Fin (- 1) / slope_mag A B) (Fin 0)"
proof -
  from assms obtain a b where ab: "A = Fin a" "B = Fin b" by (auto simp: isfinite_iff)
  have nz: "a\<^sup>2 + b\<^sup>2 + 1 \<noteq> 0" using mag_positive [of a b] by auto
  show "magnitude2 (A / slope_mag A B, B / slope_mag A B, Fin 1 / slope_mag A B) = Fin 1"
    using nz unit_vector [of a a b b 1] by (simp add: ab)
  show "magnitude2 (A / slope_mag A B, B / slope_mag A B, Fin (- 1) / slope_mag A B) = Fin 1"
    using nz unit_vector [of a a b b "- 1"] by (simp add: ab)
  show "magnitude2 ((- A) / slope_mag A B, (- B) / slope_mag A B, Fin 1 / slope_mag A B) = Fin 1"
    using nz unit_vector [of "- a" a b "- b" 1] by (simp add: ab)
  show "fl_gt (Fin 1 / slope_mag A B) (Fin 0)"
    using mag_positive [of a b] by (simp add: ab slope_mag_Fin fl_gt_def)
  show "fl_lt (Fin (- 1) / slope_mag A B) (Fin 0)"
    using mag_positive [of a b] by (simp add: ab slope_mag_Fin)
qed

lemma standard_normal1_regular:
  assumes "isfinite x" and "isfinite y" and "positive_finite (conic_root g x y)"
  shows "magnitude2 (standard_normal1 g x y) = Fin 1"
    and "snd (snd (standard_normal1 g x y)) = Fin 1 / standard_mag1 g x y"
    and "fl_gt (snd (snd (standard_normal1 g x y))) (Fin 0)"
  using scaled_vector(1,4)
    [OF conic_slopes_finite(2) [OF assms(3) assms(1)] conic_slopes_finite(2) [OF assms(3) assms(2)]]
  by (simp_all add: standard_normal1_def standard_mag1_def Let_def)

lemma asph_normal1_regular:
  assumes "isfinite x" and "isfinite y" and "positive_finite (conic_root g x y)"
    and "\<forall>c\<in>set (asph_c g). isfinite c"
  shows "magnitude2 (asph_normal1 g x y) = Fin 1"
    and "snd (snd (asph_normal1 g x y)) = Fin (- 1) / asph_mag1 g x y"
    and "fl_lt (snd (snd (asph_normal1 g x y))) (Fin 0)"
  using asph_slopes_finite [OF assms] scaled_vector(2,5)
  by (simp_all add: asph_normal1_def asph_mag1_def Let_def split_def)

lemma cheb_normal1_regular:
  assumes "isfinite x" and "isfinite y" and "positive_finite (conic_root g x y)"
    and "\<forall>row\<in>set (cheb_c g). \<forall>c\<in>set row. isfinite c"
    and "(strictly_inside (x / norm_x g) \<and> strictly_inside (y / norm_y g)) \<or>
         argwhere_nonzero (cheb_c g) = []"
  shows "magnitude2 (cheb_normal1 g x y) = Fin 1"
    and "snd (snd (cheb_normal1 g x y)) = Fin 1 / cheb_mag1 g x y"
    and "fl_gt (snd (snd (cheb_normal1 g x y))) (Fin 0)"
  using cheb_slopes_finite [OF assms] scaled_vector(3,4)
  by (simp_all add: cheb_normal1_def cheb_mag1_def Let_def split_def)

lemma standard_normal_at:
  "i < length rays \<Longrightarrow>
   normal_at (StandardGeometry_surface_normal g rays) i =
     standard_normal1 g (ray_x (rays ! i)) (ray_y (rays ! i))"
  by (simp add: standard_normal_pointwise normal_at_def)

lemma asph_normal_at:
  "i < length rays \<Longrightarrow>
   normal_at (EvenAsphere_surface_normal g (map ray_x rays) (map ray_y rays)) i =
     asph_normal1 g (ray_x (rays ! i)) (ray_y (rays ! i))"
  by (simp add: asph_normal_rays normal_at_def)

lemma cheb_normal_at:
  "i < length rays \<Longrightarrow>
   ChebyshevPolynomialGeometry_surface_normal g (map ray_x rays) (map ray_y rays) = Inr n \<Longrightarrow>
   normal_at n i = cheb_normal1 g (ray_x (rays ! i)) (ray_y (rays ! i))"
  by (auto simp: cheb_normal_rays normal_at_def split: if_splits)

text \<open>
  C5, as stated, fails where the conic square root is zero and on the boundary of the
  Chebyshev domain: on the rim of the sphere of radius 1 (\<open>x = 1\<close>, \<open>y = 0\<close>) the root
  is the real number 0 and the standard geometry returns NaN in every component; at
  \<open>x / norm_x = 1\<close>, which the domain check accepts, the derivative of a Chebyshev term
  is \<open>0 / 0\<close> and the Chebyshev geometry returns NaN in every component.
\<close>

theorem normal_undefined_at_rim:
  "conic_root \<lparr>radius = Fin 1, conic = Fin 0\<rparr> (Fin 1) (Fin 0) = Fin 0 \<and>
   StandardGeometry_surface_normal \<lparr>radius = Fin 1, conic = Fin 0\<rparr>
     [\<lparr>ray_x = Fin 1, ray_y = Fin 0, ray_z = Fin 0, ray_L = Fin 0, ray_M = Fin 0, ray_N = Fin 1\<rparr>] =
     ([NaN], [NaN], [NaN]) \<and>
   magnitude2 (normal_at (StandardGeometry_surface_normal \<lparr>radius = Fin 1, conic = Fin 0\<rparr>
     [\<lparr>ray_x = Fin 1, ray_y = Fin 0, ray_z = Fin 0, ray_L = Fin 0, ray_M = Fin 0,
       ray_N = Fin 1\<rparr>]) 0) \<noteq> Fin 1 \<and>
   conic_root
     \<lparr>radius = Fin 1, conic = Fin (- 1), cheb_c = [[Fin 0, Fin 1]], norm_x = Fin 1,
       norm_y = Fin 1\<rparr> (Fin 1) (Fin 0) = Fin 1 \<and>
   ChebyshevPolynomialGeometry_surface_normal
     \<lparr>radius = Fin 1, conic = Fin (- 1), cheb_c = [[Fin 0, Fin 1]], norm_x = Fin 1,
       norm_y = Fin 1\<rparr> [Fin 1] [Fin 0] = Inr ([NaN], [NaN], [NaN]) \<and>
   magnitude2 (normal_at ([NaN], [NaN], [NaN]) 0) \<noteq> Fin 1"
  by (simp add: conic_root_def StandardGeometry_surface_normal_def
      ChebyshevPolynomialGeometry_surface_normal_def Let_def vec_defs minus_fl_def
      argwhere_nonzero_def chebyshev_def chebyshev_derivative_def fl_gt_def fl_ne_def fl_eq_def
      magnitude2_def normal_at_def)

text \<open>
  C5, amended. At every ray of a batch with finite \<open>x\<close> and \<open>y\<close> where the conic square
  root is a positive real number, the normal returned by each variant has squared length
  1: for the standard geometry; for the even asphere with finite coefficients; for the
  Chebyshev geometry with finite coefficients, on a batch that passes the domain check,
  where the normalised coordinates lie strictly inside the interval from -1 to 1 or the
  coefficient array has no non-zero entry.
\<close>

theorem normals_unit_magnitude:
  "(\<forall>i<length rays. regular_ray gs (rays ! i) \<longrightarrow>
      magnitude2 (normal_at (StandardGeometry_surface_normal gs rays) i) = Fin 1) \<and>
   (list_all isfinite (asph_c ga) \<longrightarrow>
      (\<forall>i<length rays. regular_ray ga (rays ! i) \<longrightarrow>
         magnitude2
           (normal_at (EvenAsphere_surface_normal ga (map ray_x rays) (map ray_y rays)) i) =
         Fin 1)) \<and>
   (list_all (list_all isfinite) (cheb_c gc) \<and>
    ChebyshevPolynomialGeometry_surface_normal gc (map ray_x rays) (map ray_y rays) = Inr n \<longrightarrow>
      (\<forall>i<length rays.
         regular_ray gc (rays ! i) \<and>
         (inside_ray gc (rays ! i) \<or> argwhere_nonzero (cheb_c gc) = []) \<longrightarrow>
         magnitude2 (normal_at n i) = Fin 1))"
proof (intro conjI allI impI)
  fix i
  assume "i < length rays" and "regular_ray gs (rays ! i)"
  then show "magnitude2 (normal_at (StandardGeometry_surface_normal gs rays) i) = Fin 1"
    by (simp add: standard_normal_at standard_normal1_regular(1) regular_ray_def)
next
  fix i
  assume "list_all isfinite (asph_c ga)" and "i < length rays" and "regular_ray ga (rays ! i)"
  then show "magnitude2
      (normal_at (EvenAsphere_surface_normal ga (map ray_x rays) (map ray_y rays)) i) = Fin 1"
    by (simp add: asph_normal_at asph_normal1_regular(1) regular_ray_def list_all_iff)
next
  fix i
  assume c: "list_all (list_all isfinite) (cheb_c gc) \<and>
      ChebyshevPolynomialGeometry_surface_normal gc (map ray_x rays) (map ray_y rays) = Inr n"
    and i: "i < length rays"
    and r: "regular_ray gc (rays ! i) \<and>
      (inside_ray gc (rays ! i) \<or> argwhere_nonzero (cheb_c gc) = [])"
  from c have coef: "\<forall>row\<in>set (cheb_c gc). \<forall>c\<in>set row. isfinite c"
    by (simp add: list_all_iff)
  from r have "magnitude2 (cheb_normal1 gc (ray_x (rays ! i)) (ray_y (rays ! i))) = Fin 1"
    by (intro cheb_normal1_regular(1) coef) (auto simp: regular_ray_def inside_ray_def)
  moreover from c i
  have "normal_at n i = cheb_normal1 gc (ray_x (rays ! i)) (ray_y (rays ! i))"
    by (intro cheb_normal_at) simp_all
  ultimately show "magnitude2 (normal_at n i) = Fin 1"
    by simp
qed

theorem normals_unit_magnitude_witness:
  "regular_ray \<lparr>radius = Fin 13, conic = Fin (- 1)\<rparr>
     \<lparr>ray_x = Fin 3, ray_y = Fin 4, ray_z = Fin 0, ray_L = Fin 0, ray_M = Fin 0, ray_N = Fin 1\<rparr> \<and>
   inside_ray
     \<lparr>radius = Fin 13, conic = Fin (- 1), cheb_c = [[Fin 0, Fin 1]], norm_x = Fin 5,
       norm_y = Fin 5\<rparr>
     \<lparr>ray_x = Fin 3, ray_y = Fin 4, ray_z = Fin 0, ray_L = Fin 0, ray_M = Fin 0, ray_N = Fin 1\<rparr> \<and>
   magnitude2 (normal_at (StandardGeometry_surface_normal \<lparr>radius = Fin 13, conic = Fin (- 1)\<rparr>
     [\<lparr>ray_x = Fin 3, ray_y = Fin 4, ray_z = Fin 0, ray_L = Fin 0, ray_M = Fin 0,
       ray_N = Fin 1\<rparr>]) 0) = Fin 1 \<and>
   magnitude2 (normal_at (EvenAsphere_surface_normal
     \<lparr>radius = Fin 13, conic = Fin (- 1), asph_c = [Fin 1]\<rparr> [Fin 3] [Fin 4]) 0) = Fin 1 \<and>
   (\<exists>n. ChebyshevPolynomialGeometry_surface_normal
           \<lparr>radius = Fin 13, conic = Fin (- 1), cheb_c = [[Fin 0, Fin 1]], norm_x = Fin 5,
             norm_y = Fin 5\<rparr> [Fin 3] [Fin 4] = Inr n \<and>
        magnitude2 (normal_at n 0) = Fin 1)"
proof -
  let ?r = "\<lparr>ray_x = Fin 3, ray_y = Fin 4, ray_z = Fin 0, ray_L = Fin 0, ray_M = Fin 0,
              ray_N = Fin 1\<rparr>"
  let ?gs = "\<lparr>radius = Fin 13, conic = Fin (- 1)\<rparr>"
  let ?ga = "\<lparr>radius = Fin 13, conic = Fin (- 1), asph_c = [Fin 1]\<rparr>"
  let ?gc = "\<lparr>radius = Fin 13, conic = Fin (- 1), cheb_c = [[Fin 0, Fin 1]], norm_x = Fin 5,
               norm_y = Fin 5\<rparr>"
  have reg: "regular_ray ?gs ?r" "regular_ray ?ga ?r" "regular_ray ?gc ?r"
    by (simp_all add: regular_ray_def conic_root_def positive_finite_def minus_fl_def)
  have ins: "inside_ray ?gc ?r"
    by (simp add: inside_ray_def strictly_inside_def)
  have "ChebyshevPolynomialGeometry_surface_normal ?gc [Fin 3] [Fin 4] \<noteq> Inl ValueError"
    by (simp add: cheb_normal_raises_iff fl_gt_def)
  then obtain n where n: "ChebyshevPolynomialGeometry_surface_normal ?gc [Fin 3] [Fin 4] = Inr n"
    by (cases "ChebyshevPolynomialGeometry_surface_normal ?gc [Fin 3] [Fin 4]")
      (auto intro: error.exhaust)
  from normals_unit_magnitude [of "[?r]" ?gs ?ga ?gc n] reg ins n
  show ?thesis by simp
qed

text \<open>
  C6, as stated, fails for the standard geometry: at the vertex of the sphere of radius
  1 the magnitude is 1 and the normal is \<open>(0, 0, 1)\<close>, with \<open>nz = +1 / mag\<close>, not negative.
\<close>

theorem standard_normal_positive_z:
  "regular_ray \<lparr>radius = Fin 1, conic = Fin 0\<rparr>
     \<lparr>ray_x = Fin 0, ray_y = Fin 0, ray_z = Fin 0, ray_L = Fin 0, ray_M = Fin 0, ray_N = Fin 1\<rparr> \<and>
   snd (snd (normal_at (StandardGeometry_surface_normal \<lparr>radius = Fin 1, conic = Fin 0\<rparr>
     [\<lparr>ray_x = Fin 0, ray_y = Fin 0, ray_z = Fin 0, ray_L = Fin 0, ray_M = Fin 0,
       ray_N = Fin 1\<rparr>]) 0)) = Fin 1 \<and>
   Fin (- 1) / standard_mag1 \<lparr>radius = Fin 1, conic = Fin 0\<rparr> (Fin 0) (Fin 0) = Fin (- 1) \<and>
   \<not> fl_lt (snd (snd (normal_at (StandardGeometry_surface_normal
     \<lparr>radius = Fin 1, conic = Fin 0\<rparr>
     [\<lparr>ray_x = Fin 0, ray_y = Fin 0, ray_z = Fin 0, ray_L = Fin 0, ray_M = Fin 0,
       ray_N = Fin 1\<rparr>]) 0))) (Fin 0)"
  by (simp add: StandardGeometry_surface_normal_def Let_def vec_defs minus_fl_def
      standard_mag1_def conic_root_def slope_mag_def normal_at_def regular_ray_def
      positive_finite_def isfinite_def)

text \<open>
  C6, amended. Where the normal is defined (as in C5), the standard geometry and the
  Chebyshev geometry return \<open>nz = +1 / mag\<close>, which is positive, and the even asphere
  returns \<open>nz = -1 / mag\<close>, which is negative: the standard and the Chebyshev geometry
  share one sign convention and the even asphere has the opposite one.
\<close>

theorem normal_sign_conventions:
  "(\<forall>i<length rays. regular_ray gs (rays ! i) \<longrightarrow>
      snd (snd (normal_at (StandardGeometry_surface_normal gs rays) i)) =
        Fin 1 / standard_mag1 gs (ray_x (rays ! i)) (ray_y (rays ! i)) \<and>
      fl_gt (snd (snd (normal_at (StandardGeometry_surface_normal gs rays) i))) (Fin 0)) \<and>
   (list_all isfinite (asph_c ga) \<longrightarrow>
      (\<forall>i<length rays. regular_ray ga (rays ! i) \<longrightarrow>
         snd (snd (normal_at
             (EvenAsphere_surface_normal ga (map ray_x rays) (map ray_y rays)) i)) =
           Fin (- 1) / asph_mag1 ga (ray_x (rays ! i)) (ray_y (rays ! i)) \<and>
         fl_lt (snd (snd (normal_at
             (EvenAsphere_surface_normal ga (map ray_x rays) (map ray_y rays)) i))) (Fin 0))) \<and>
   (list_all (list_all isfinite) (cheb_c gc) \<and>
    ChebyshevPolynomialGeometry_surface_normal gc (map ray_x rays) (map ray_y rays) = Inr n \<longrightarrow>
      (\<forall>i<length rays.
         regular_ray gc (rays ! i) \<and>
         (inside_ray gc (rays ! i) \<or> argwhere_nonzero (cheb_c gc) = []) \<longrightarrow>
         snd (snd (normal_at n i)) =
           Fin 1 / cheb_mag1 gc (ray_x (rays ! i)) (ray_y (rays ! i)) \<and>
         fl_gt (snd (snd (normal_at n i))) (Fin 0)))"
proof (intro conjI allI impI)
  fix i
  assume i: "i < length rays" and r: "regular_ray gs (rays ! i)"
  let ?x = "ray_x (rays ! i)" and ?y = "ray_y (rays ! i)"
  from r have x: "isfinite ?x" and y: "isfinite ?y"
    and root: "positive_finite (conic_root gs ?x ?y)"
    by (simp_all add: regular_ray_def)
  show "snd (snd (normal_at (StandardGeometry_surface_normal gs rays) i)) =
        Fin 1 / standard_mag1 gs ?x ?y"
    unfolding standard_normal_at [OF i] by (rule standard_normal1_regular(2) [OF x y root])
  show "fl_gt (snd (snd (normal_at (StandardGeometry_surface_normal gs rays) i))) (Fin 0)"
    unfolding standard_normal_at [OF i] by (rule standard_normal1_regular(3) [OF x y root])
next
  fix i
  assume coef: "list_all isfinite (asph_c ga)"
    and i: "i < length rays" and r: "regular_ray ga (rays ! i)"
  let ?x = "ray_x (rays ! i)" and ?y = "ray_y (rays ! i)"
  from r have x: "isfinite ?x" and y: "isfinite ?y"
    and root: "positive_finite (conic_root ga ?x ?y)"
    by (simp_all add: regular_ray_def)
  from coef have c: "\<forall>c\<in>set (asph_c ga). isfinite c"
    by (simp add: list_all_iff)
  show "snd (snd (normal_at
             (EvenAsphere_surface_normal ga (map ray_x rays) (map ray_y rays)) i)) =
           Fin (- 1) / asph_mag1 ga ?x ?y"
    unfolding asph_normal_at [OF i] by (rule asph_normal1_regular(2) [OF x y root c])
  show "fl_lt (snd (snd (normal_at
             (EvenAsphere_surface_normal ga (map ray_x rays) (map ray_y rays)) i))) (Fin 0)"
    unfolding asph_normal_at [OF i] by (rule asph_normal1_regular(3) [OF x y root c])
next
  fix i
  assume c: "list_all (list_all isfinite) (cheb_c gc) \<and>
      ChebyshevPolynomialGeometry_surface_normal gc (map ray_x rays) (map ray_y rays) = Inr n"
    and i: "i < length rays"
    and r: "regular_ray gc (rays ! i) \<and>
      (inside_ray gc (rays ! i) \<or> argwhere_nonzero (cheb_c gc) = [])"
  let ?x = "ray_x (rays ! i)" and ?y = "ray_y (rays ! i)"
  from c have coef: "\<forall>row\<in>set (cheb_c gc). \<forall>c\<in>set row. isfinite c"
    by (simp add: list_all_iff)
  from r have x: "isfinite ?x" and y: "isfinite ?y"
    and root: "positive_finite (conic_root gc ?x ?y)"
    and ins: "(strictly_inside (?x / norm_x gc) \<and> strictly_inside (?y / norm_y gc)) \<or>
         argwhere_nonzero (cheb_c gc) = []"
    by (auto simp: regular_ray_def inside_ray_def)
  from c i have at: "normal_at n i = cheb_normal1 gc ?x ?y"
    by (intro cheb_normal_at) simp_all
  show "snd (snd (normal_at n i)) = Fin 1 / cheb_mag1 gc ?x ?y"
    unfolding at by (rule cheb_normal1_regular(2) [OF x y root coef ins])
  show "fl_gt (snd (snd (normal_at n i))) (Fin 0)"
    unfolding at by (rule cheb_normal1_regular(3) [OF x y root coef ins])
qed

theorem normal_sign_conventions_witness:
  "regular_ray \<lparr>radius = Fin 13, conic = Fin (- 1)\<rparr>
     \<lparr>ray_x = Fin 3, ray_y = Fin 4, ray_z = Fin 0, ray_L = Fin 0, ray_M = Fin 0, ray_N = Fin 1\<rparr> \<and>
   inside_ray
     \<lparr>radius = Fin 13, conic = Fin (- 1), cheb_c = [[Fin 0, Fin 1]], norm_x = Fin 5,
       norm_y = Fin 5\<rparr>
     \<lparr>ray_x = Fin 3, ray_y = Fin 4, ray_z = Fin 0, ray_L = Fin 0, ray_M = Fin 0, ray_N = Fin 1\<rparr> \<and>
   fl_gt (snd (snd (normal_at (StandardGeometry_surface_normal
     \<lparr>radius = Fin 13, conic = Fin (- 1)\<rparr>
     [\<lparr>ray_x = Fin 3, ray_y = Fin 4, ray_z = Fin 0, ray_L = Fin 0, ray_M = Fin 0,
       ray_N = Fin 1\<rparr>]) 0))) (Fin 0) \<and>
   fl_lt (snd (snd (normal_at (EvenAsphere_surface_normal
     \<lparr>radius = Fin 13, conic = Fin (- 1), asph_c = [Fin 1]\<rparr> [Fin 3] [Fin 4]) 0))) (Fin 0) \<and>
   (\<exists>n. ChebyshevPolynomialGeometry_surface_normal
           \<lparr>radius = Fin 13, conic = Fin (- 1), cheb_c = [[Fin 0, Fin 1]], norm_x = Fin 5,
             norm_y = Fin 5\<rparr> [Fin 3] [Fin 4] = Inr n \<and>
        fl_gt (snd (snd (normal_at n 0))) (Fin 0))"
proof -
  let ?r = "\<lparr>ray_x = Fin 3, ray_y = Fin 4, ray_z = Fin 0, ray_L = Fin 0, ray_M = Fin 0,
              ray_N = Fin 1\<rparr>"
  let ?gs = "\<lparr>radius = Fin 13, conic = Fin (- 1)\<rparr>"
  let ?ga = "\<lparr>radius = Fin 13, conic = Fin (- 1), asph_c = [Fin 1]\<rparr>"
  let ?gc = "\<lparr>radius = Fin 13, conic = Fin (- 1), cheb_c = [[Fin 0, Fin 1]], norm_x = Fin 5,
               norm_y = Fin 5\<rparr>"
  have reg: "regular_ray ?gs ?r" "regular_ray ?ga ?r" "regular_ray ?gc ?r"
    by (simp_all add: regular_ray_def conic_root_def positive_finite_def minus_fl_def)
  have ins: "inside_ray ?gc ?r"
    by (simp add: inside_ray_def strictly_inside_def)
  have "ChebyshevPolynomialGeometry_surface_normal ?gc [Fin 3] [Fin 4] \<noteq> Inl ValueError"
    by (simp add: cheb_normal_raises_iff fl_gt_def)
  then obtain n where n: "ChebyshevPolynomialGeometry_surface_normal ?gc [Fin 3] [Fin 4] = Inr n"
    by (cases "ChebyshevPolynomialGeometry_surface_normal ?gc [Fin 3] [Fin 4]")
      (auto intro: error.exhaust)
  have len: "0 < length [?r]" by simp
  have reg0: "regular_ray ?gs ([?r] ! 0)" "regular_ray ?ga ([?r] ! 0)"
    "regular_ray ?gc ([?r] ! 0)" "inside_ray ?gc ([?r] ! 0)"
    using reg ins by simp_all
  have coef: "list_all isfinite (asph_c ?ga)" "list_all (list_all isfinite) (cheb_c ?gc)"
    by simp_all
  have n0: "ChebyshevPolynomialGeometry_surface_normal ?gc (map ray_x [?r]) (map ray_y [?r]) =
      Inr n"
    using n by simp
  from normal_sign_conventions [of "[?r]" ?gs ?ga ?gc n] len reg0 coef n0
  have "fl_gt (snd (snd (normal_at (StandardGeometry_surface_normal ?gs [?r]) 0))) (Fin 0)"
    and "fl_lt (snd (snd (normal_at
        (EvenAsphere_surface_normal ?ga (map ray_x [?r]) (map ray_y [?r])) 0))) (Fin 0)"
    and "fl_gt (snd (snd (normal_at n 0))) (Fin 0)"
    by blast+
  with reg ins n show ?thesis by auto
qed

section \<open>The coefficients of the Chebyshev geometry\<close>

lemma fl_ne_zero_iff: "fl_ne v (Fin 0) \<longleftrightarrow> v \<noteq> Fin 0"
  by (auto simp: fl_ne_def fl_eq_def)

lemma concat_singletons:
  "concat (map (\<lambda>j. if P j then [(i, j)] else []) js) = map (Pair i) (filter P js)"
  by (induction js) simp_all

lemma filter_upt_extend:
  assumes "n \<le> N" and "\<And>j. n \<le> j \<Longrightarrow> \<not> P j"
  shows "filter P [0..<N] = filter P [0..<n]"
proof -
  from assms(1) have "[0..<N] = [0..<n] @ [n..<N]"
    by (metis le_add_diff_inverse upt_add_eq_append zero_le)
  moreover have "filter P [n..<N] = []"
    using assms(2) by (simp add: filter_empty_conv)
  ultimately show ?thesis by simp
qed

lemma concat_map_upt_extend:
  assumes "m \<le> M" and "\<And>i. m \<le> i \<Longrightarrow> f i = []"
  shows "concat (map f [0..<M]) = concat (map f [0..<m])"
proof -
  from assms(1) have "[0..<M] = [0..<m] @ [m..<M]"
    by (metis le_add_diff_inverse upt_add_eq_append zero_le)
  moreover have "concat (map f [m..<M]) = []"
    using assms(2) by simp
  ultimately show ?thesis by simp
qed

lemma argwhere_nonzero_rows:
  "argwhere_nonzero c =
     concat (map (\<lambda>i. map (Pair i) (filter (\<lambda>j. fl_ne (c ! i ! j) (Fin 0)) [0..<length (c ! i)]))
       [0..<length c])"
  by (simp add: argwhere_nonzero_def concat_singletons)

lemma argwhere_nonzero_canonical:
  assumes M: "length c \<le> M" and N: "\<forall>row\<in>set c. length row \<le> N"
  shows "argwhere_nonzero c =
     concat (map (\<lambda>i. map (Pair i) (filter (\<lambda>j. fl_ne (coefficient c i j) (Fin 0)) [0..<N]))
       [0..<M])"
proof -
  let ?G = "\<lambda>i. map (Pair i) (filter (\<lambda>j. fl_ne (coefficient c i j) (Fin 0)) [0..<N])"
  have row: "filter (\<lambda>j. fl_ne (c ! i ! j) (Fin 0)) [0..<length (c ! i)] =
      filter (\<lambda>j. fl_ne (coefficient c i j) (Fin 0)) [0..<N]"
    if "i < length c" for i
  proof -
    from that N have le: "length (c ! i) \<le> N" by simp
    have "filter (\<lambda>j. fl_ne (coefficient c i j) (Fin 0)) [0..<N] =
        filter (\<lambda>j. fl_ne (coefficient c i j) (Fin 0)) [0..<length (c ! i)]"
      by (rule filter_upt_extend [OF le]) (simp add: coefficient_def fl_ne_zero_iff)
    also have "\<dots> = filter (\<lambda>j. fl_ne (c ! i ! j) (Fin 0)) [0..<length (c ! i)]"
      using that by (intro filter_cong refl) (simp add: coefficient_def)
    finally show ?thesis by simp
  qed
  have "argwhere_nonzero c = concat (map ?G [0..<length c])"
    unfolding argwhere_nonzero_rows
    by (intro arg_cong [where f = concat] map_cong refl) (simp add: row)
  also have "\<dots> = concat (map ?G [0..<M])"
    by (rule concat_map_upt_extend [OF M, symmetric])
      (simp add: coefficient_def fl_ne_zero_iff)
  finally show ?thesis .
qed

lemma argwhere_nonzero_agree:
  assumes "\<And>i j. coefficient c i j = coefficient c' i j"
  shows "argwhere_nonzero c = argwhere_nonzero c'"
proof -
  let ?M = "max (length c) (length c')"
  let ?N = "sum_list (map length c) + sum_list (map length c')"
  have bound: "length row \<le> sum_list (map length rows)" if "row \<in> set rows"
    for row :: "fl list" and rows
    using that member_le_sum_list [of "length row" "map length rows"] by simp
  have 1: "\<forall>row\<in>set c. length row \<le> ?N"
    using bound [of _ c] by (simp add: trans_le_add1)
  have 2: "\<forall>row\<in>set c'. length row \<le> ?N"
    using bound [of _ c'] by (simp add: trans_le_add2)
  show ?thesis
    using argwhere_nonzero_canonical [of c ?M ?N] argwhere_nonzero_canonical [of c' ?M ?N] 1 2 assms
    by simp
qed

lemma argwhere_nonzero_entry:
  assumes "(i, j) \<in> set (argwhere_nonzero c)"
  shows "c ! i ! j = coefficient c i j"
  using argwhere_nonzero_in_range [OF assms] by (simp add: coefficient_def)

lemma foldl_argwhere_agree:
  assumes "\<And>i j. coefficient c i j = coefficient c' i j"
  shows "foldl (\<lambda>s (i, j). h s i j (c ! i ! j)) s0 (argwhere_nonzero c) =
     foldl (\<lambda>s (i, j). h s i j (c' ! i ! j)) s0 (argwhere_nonzero c')"
proof (rule foldl_cong [OF refl argwhere_nonzero_agree])
  show "coefficient c i j = coefficient c' i j" for i j by (rule assms)
next
  fix s p
  assume p: "p \<in> set (argwhere_nonzero c)"
  obtain i j where ij: "p = (i, j)" by (cases p)
  from p ij have "(i, j) \<in> set (argwhere_nonzero c')"
    using argwhere_nonzero_agree [of c c'] assms by simp
  then have "c' ! i ! j = coefficient c' i j" by (rule argwhere_nonzero_entry)
  moreover from p ij have "c ! i ! j = coefficient c i j"
    by (simp add: argwhere_nonzero_entry)
  ultimately have "c ! i ! j = c' ! i ! j" using assms by simp
  then show "(case p of (i, j) \<Rightarrow> h s i j (c ! i ! j)) = (case p of (i, j) \<Rightarrow> h s i j (c' ! i ! j))"
    by (simp add: ij)
qed

text \<open>
  C9. \<open>sag\<close> and \<open>_surface_normal\<close> of the Chebyshev geometry read the coefficient array
  only at its non-zero entries: two arrays that agree wherever one of them has a non-zero
  entry (positions outside an array counting as zero, so that an array padded with zero
  rows or columns agrees with the original) give the same result, a raised error
  included, for every input.
\<close>

theorem chebyshev_nonzero_entries:
  assumes "\<forall>i j. fl_ne (coefficient c i j) (Fin 0) \<or> fl_ne (coefficient c' i j) (Fin 0) \<longrightarrow>
      coefficient c i j = coefficient c' i j"
  shows "ChebyshevPolynomialGeometry_sag (g\<lparr>cheb_c := c\<rparr>) x y =
       ChebyshevPolynomialGeometry_sag (g\<lparr>cheb_c := c'\<rparr>) x y \<and>
     ChebyshevPolynomialGeometry_surface_normal (g\<lparr>cheb_c := c\<rparr>) x y =
       ChebyshevPolynomialGeometry_surface_normal (g\<lparr>cheb_c := c'\<rparr>) x y"
proof -
  have agree: "coefficient c i j = coefficient c' i j" for i j
    using assms by (cases "coefficient c i j = Fin 0 \<and> coefficient c' i j = Fin 0")
      (auto simp: fl_ne_zero_iff)
  have sag_fold:
    "foldl (\<lambda>z (i, j). vadd z (vmul (map (\<lambda>v. c ! i ! j * v) (chebyshev i xn)) (chebyshev j yn)))
       z0 (argwhere_nonzero c) =
     foldl (\<lambda>z (i, j). vadd z (vmul (map (\<lambda>v. c' ! i ! j * v) (chebyshev i xn)) (chebyshev j yn)))
       z0 (argwhere_nonzero c')" for xn yn z0
    by (rule foldl_argwhere_agree
        [where h = "\<lambda>z i j v0. vadd z (vmul (map (\<lambda>v. v0 * v) (chebyshev i xn)) (chebyshev j yn))",
          OF agree])
  have normal_fold:
    "foldl
       (\<lambda>(dzdx, dzdy) (i, j).
          (vadd dzdx
             (vmul (map (\<lambda>v. v * c ! i ! j) (chebyshev_derivative i xn)) (chebyshev j yn)),
           vadd dzdy
             (vmul (map (\<lambda>v. v * c ! i ! j) (chebyshev_derivative j yn)) (chebyshev i xn))))
       s0 (argwhere_nonzero c) =
     foldl
       (\<lambda>(dzdx, dzdy) (i, j).
          (vadd dzdx
             (vmul (map (\<lambda>v. v * c' ! i ! j) (chebyshev_derivative i xn)) (chebyshev j yn)),
           vadd dzdy
             (vmul (map (\<lambda>v. v * c' ! i ! j) (chebyshev_derivative j yn)) (chebyshev i xn))))
       s0 (argwhere_nonzero c')" for xn yn s0
    using foldl_argwhere_agree
        [where h = "\<lambda>s i j v0.
            (vadd (fst s) (vmul (map (\<lambda>v. v * v0) (chebyshev_derivative i xn)) (chebyshev j yn)),
             vadd (snd s) (vmul (map (\<lambda>v. v * v0) (chebyshev_derivative j yn)) (chebyshev i xn)))",
          OF agree, of s0]
    by (simp add: split_def)
  show ?thesis
    by (simp add: ChebyshevPolynomialGeometry_sag_def
        ChebyshevPolynomialGeometry_surface_normal_def Let_def sag_fold normal_fold)
qed

theorem chebyshev_nonzero_entries_witness:
  "ChebyshevPolynomialGeometry_sag
     \<lparr>radius = Fin 13, conic = Fin (- 1), cheb_c = [[Fin 0, Fin 1]], norm_x = Fin 5,
       norm_y = Fin 5\<rparr> [Fin 3] [Fin 4] =
   ChebyshevPolynomialGeometry_sag
     \<lparr>radius = Fin 13, conic = Fin (- 1),
       cheb_c = [[Fin 0, Fin 1, Fin 0], [Fin 0, Fin 0, Fin 0]], norm_x = Fin 5,
       norm_y = Fin 5\<rparr> [Fin 3] [Fin 4] \<and>
   ChebyshevPolynomialGeometry_surface_normal
     \<lparr>radius = Fin 13, conic = Fin (- 1), cheb_c = [[Fin 0, Fin 1]], norm_x = Fin 5,
       norm_y = Fin 5\<rparr> [Fin 3] [Fin 4] =
   ChebyshevPolynomialGeometry_surface_normal
     \<lparr>radius = Fin 13, conic = Fin (- 1),
       cheb_c = [[Fin 0, Fin 1, Fin 0], [Fin 0, Fin 0, Fin 0]], norm_x = Fin 5,
       norm_y = Fin 5\<rparr> [Fin 3] [Fin 4]"
proof -
  let ?c = "[[Fin 0, Fin 1]]"
  let ?c' = "[[Fin 0, Fin 1, Fin 0], [Fin 0, Fin 0, Fin 0]]"
  let ?g = "\<lparr>radius = Fin 13, conic = Fin (- 1), cheb_c = [], norm_x = Fin 5, norm_y = Fin 5\<rparr>"
  have "coefficient ?c i j = coefficient ?c' i j" for i j
    by (auto simp: coefficient_def nth_Cons' less_Suc_eq numeral_2_eq_2 numeral_3_eq_3)
  then have "\<forall>i j. fl_ne (coefficient ?c i j) (Fin 0) \<or> fl_ne (coefficient ?c' i j) (Fin 0) \<longrightarrow>
      coefficient ?c i j = coefficient ?c' i j"
    by simp
  from chebyshev_nonzero_entries [OF this, of ?g "[Fin 3]" "[Fin 4]"]
  show ?thesis by simp
qed

end
